theory Spec2Isabelle
  imports Complex_Main "HOL-Library.Word" "HOL-Library.Monad_Syntax"
begin

section \<open>Data model of \<open>xla/service/gpu/runtime/conv.cc\<close>\<close>

text \<open>
  Machine integers are words: \<open>int64_t\<close> and \<open>uint64_t\<close> values are \<open>64 word\<close>
  (read with \<open>sint\<close> where the code treats them as signed and with \<open>unat\<close> where it
  treats them as unsigned), \<open>int\<close> and \<open>int32_t\<close> values are \<open>32 word\<close>. A
  \<open>double\<close> is only ever copied by this file, never computed with; it is a \<open>real\<close>.
\<close>

type_synonym int64 = "64 word"
type_synonym int32 = "32 word"
type_synonym double = real
type_synonym PrimitiveType = nat
type_synonym ActivationMode = int64

text \<open>
  \<open>absl::Status\<close>: an error is a value. \<open>UndefinedBehavior\<close> marks the places where the
  C++ reads a span, a vector or a repeated field out of range.
\<close>

datatype error = InternalError string | OtherError nat | UndefinedBehavior

type_synonym Status = "error + unit"

abbreviation OkStatus :: Status where
  "OkStatus \<equiv> Inr ()"

subsection \<open>Buffer views (\<open>xla::runtime\<close>)\<close>

record StridedMemrefView =
  dtype :: PrimitiveType
  data :: nat
  sizes :: "int64 list"
  strides :: "int64 list"

record FlatMemrefView =
  dtype :: PrimitiveType
  data :: nat
  size_in_bytes :: int64

subsection \<open>Attribute structs of the file (lines 63-88 and 209-232)\<close>

record ConvDimensionNumbers =
  input_batch_dim :: int64
  input_feature_dim :: int64
  input_spatial_dims :: "int64 list"
  kernel_in_feature_dim :: int64
  kernel_out_feature_dim :: int64
  kernel_spatial_dims :: "int64 list"
  output_batch_dim :: int64
  output_feature_dim :: int64
  output_spatial_dims :: "int64 list"

record ConvBackendConfig =
  algorithm :: int64
  tensor_ops_enabled :: bool
  is_cudnn_frontend :: bool
  is_cudnn_reordered_int8 :: bool
  knob_ids :: "int64 list"
  knob_values :: "int64 list"
  operand_0_layout :: "int64 list"
  operand_1_layout :: "int64 list"
  result_layout :: "int64 list"
  workspace_size :: int64

record Window =
  window_strides :: "int64 list"
  padding :: "int64 list"
  lhs_dilation :: "int64 list"
  rhs_dilation :: "int64 list"
  window_reversal :: "int64 list"

record ConvAttrs =
  feature_group_count :: int64
  result_scale :: double

record FusedConvAttrs =
  activation_mode :: ActivationMode

record SideInputAttrs =
  side_input_scale :: double

record LeakyReluAlphaAttrs =
  leaky_relu_alpha :: double

subsection \<open>The descriptor and the messages it holds\<close>

datatype CudnnConvKind =
  kForward | kBackwardInput | kBackwardFilter | kForwardActivation | kForwardGraph

record Shape =
  element_type :: PrimitiveType
  dimensions :: "int64 list"
  minor_to_major :: "int64 list"

record ConvolutionDimensionNumbers =
  input_batch_dimension :: int64
  input_feature_dimension :: int64
  input_spatial_dimensions :: "int64 list"
  kernel_input_feature_dimension :: int64
  kernel_output_feature_dimension :: int64
  kernel_spatial_dimensions :: "int64 list"
  output_batch_dimension :: int64
  output_feature_dimension :: int64
  output_spatial_dimensions :: "int64 list"

text \<open>\<open>WindowDimension\<close>: the field \<open>size\<close> of the message is \<open>wsize\<close> here.\<close>

record WindowDimension =
  wsize :: int64
  stride :: int64
  padding_low :: int64
  padding_high :: int64
  base_dilation :: int64
  window_dilation :: int64
  window_reversal :: bool

datatype MathType = DEFAULT_MATH | TENSOR_OP_MATH

text \<open>
  \<open>se::dnn::AlgorithmProto\<close>. The workspace size is a wrapper message: \<open>None\<close> is the
  unset field. The tuning knobs are a map from knob id to knob value.
\<close>

record AlgorithmProto =
  algo_id :: int64
  math_type :: MathType
  is_cudnn_frontend :: bool
  workspace_size :: "int64 option"
  tuning_knobs :: "int64 \<rightharpoonup> int64"

record CudnnConvBackendConfig =
  algorithm :: AlgorithmProto
  conv_result_scale :: double
  activation_mode :: ActivationMode
  side_input_scale :: double
  leakyrelu_alpha :: double
  reordered_int8_nchw_vect :: bool
  serialized_graph :: string

record GpuConvDescriptor =
  kind :: CudnnConvKind
  backend_config :: CudnnConvBackendConfig
  operand0_shape :: Shape
  operand1_shape :: Shape
  result_shape :: Shape
  scratch_size :: int64
  window :: "WindowDimension list"
  dnums :: ConvolutionDimensionNumbers
  feature_group_count :: int64

section \<open>The descriptor builder: \<open>GetConvDescriptor\<close> (lines 236-331)\<close>

text \<open>
  \<open>span_at xs i\<close> is \<open>xs[i]\<close> on a span, a vector or a repeated field: the element when
  \<open>i\<close> is in range, \<open>None\<close> (undefined behaviour in the C++) when it is not.
\<close>

definition span_at :: "'a list \<Rightarrow> nat \<Rightarrow> 'a option" where
  "span_at xs i = (if i < length xs then Some (xs ! i) else None)"

text \<open>
  \<open>Shape::dimensions(int index)\<close>: the index is a signed \<open>int\<close>; a negative one is out
  of range.
\<close>

definition shape_dimensions :: "Shape \<Rightarrow> int32 \<Rightarrow> int64 option" where
  "shape_dimensions shape index =
     (if 0 \<le> sint index then span_at (dimensions shape) (nat (sint index)) else None)"

text \<open>
  Modelled from the spec: \<open>ToShape\<close> (support.h) and
  \<open>ShapeUtil::MakeShapeWithDenseLayout\<close> are not in this file. The spec's descriptor
  builder re-lays-out the operand and result shapes according to the minor-to-major
  orderings of the backend config: the shape keeps the element type and the extents of
  the buffer, and its layout is the given ordering (the layout that \<open>ToShape\<close> recovers
  from the strides is discarded by \<open>apply_layout\<close>).
\<close>

definition MakeShapeWithDenseLayout ::
  "PrimitiveType \<Rightarrow> int64 list \<Rightarrow> int64 list \<Rightarrow> Shape" where
  "MakeShapeWithDenseLayout ty dims m2m =
     \<lparr>element_type = ty, dimensions = dims, minor_to_major = m2m\<rparr>"

definition apply_layout :: "StridedMemrefView \<Rightarrow> int64 list \<Rightarrow> Shape" where
  "apply_layout memref m2m =
     MakeShapeWithDenseLayout (StridedMemrefView.dtype memref) (sizes memref) m2m"

text \<open>Lines 264-276: the dimension numbers are copied field by field.\<close>

definition make_dnums :: "ConvDimensionNumbers \<Rightarrow> ConvolutionDimensionNumbers" where
  "make_dnums dims =
     \<lparr>input_batch_dimension = input_batch_dim dims,
      input_feature_dimension = input_feature_dim dims,
      input_spatial_dimensions = input_spatial_dims dims,
      kernel_input_feature_dimension = kernel_in_feature_dim dims,
      kernel_output_feature_dimension = kernel_out_feature_dim dims,
      kernel_spatial_dimensions = kernel_spatial_dims dims,
      output_batch_dimension = output_batch_dim dims,
      output_feature_dimension = output_feature_dim dims,
      output_spatial_dimensions = output_spatial_dims dims\<rparr>"

text \<open>
  The body of the loop of lines 279-293 at one \<open>index\<close>. \<open>int kernel_dim\<close> narrows the
  64-bit entry of the kernel spatial dimensions to 32 bits (\<open>scast\<close>); the size is read
  from \<open>descriptor.operand0_shape\<close>; the single padding value is used for both sides;
  \<open>set_window_reversal\<close> takes a \<open>bool\<close>, so a non-zero entry is \<open>True\<close>.
\<close>

definition window_dimension ::
  "ConvolutionDimensionNumbers \<Rightarrow> Shape \<Rightarrow> Window \<Rightarrow> nat \<Rightarrow> WindowDimension option" where
  "window_dimension dns operand0_shp w index =
     do {
       kd \<leftarrow> span_at (kernel_spatial_dimensions dns) index;
       let kernel_dim = (scast kd :: int32);
       sz \<leftarrow> shape_dimensions operand0_shp kernel_dim;
       st \<leftarrow> span_at (window_strides w) index;
       pd \<leftarrow> span_at (padding w) index;
       ld \<leftarrow> span_at (lhs_dilation w) index;
       rd \<leftarrow> span_at (rhs_dilation w) index;
       rv \<leftarrow> span_at (Window.window_reversal w) index;
       Some \<lparr>wsize = sz, stride = st, padding_low = pd, padding_high = pd,
             base_dilation = ld, window_dilation = rd,
             WindowDimension.window_reversal = (rv \<noteq> 0)\<rparr>
     }"

text \<open>
  The loop itself: \<open>index\<close> runs over \<open>llvm::seq<int>(0, w.window_strides.size())\<close> and
  every round appends one dimension to \<open>descriptor.window\<close>. An attribute array is far
  shorter than \<open>INT_MAX\<close>, so the \<open>int\<close> index takes the values from 0 up to the size.
\<close>

fun add_dimensions ::
  "ConvolutionDimensionNumbers \<Rightarrow> Shape \<Rightarrow> Window \<Rightarrow> nat list \<Rightarrow> WindowDimension list
     \<Rightarrow> WindowDimension list option" where
  "add_dimensions dns shp w [] acc = Some acc"
| "add_dimensions dns shp w (index # rest) acc =
     (case window_dimension dns shp w index of
        None \<Rightarrow> None
      | Some wd \<Rightarrow> add_dimensions dns shp w rest (acc @ [wd]))"

definition make_window ::
  "ConvolutionDimensionNumbers \<Rightarrow> Shape \<Rightarrow> Window \<Rightarrow> WindowDimension list option" where
  "make_window dns shp w = add_dimensions dns shp w [0..<length (window_strides w)] []"

text \<open>
  Lines 312-314: \<open>insert\<close> on the knob map keeps the value of a key that is already
  there; \<open>b.knob_values[i]\<close> is read for every index of \<open>b.knob_ids\<close>.
\<close>

fun insert_knobs ::
  "int64 list \<Rightarrow> int64 list \<Rightarrow> nat list \<Rightarrow> (int64 \<rightharpoonup> int64) \<Rightarrow> (int64 \<rightharpoonup> int64) option" where
  "insert_knobs ids vals [] m = Some m"
| "insert_knobs ids vals (i # rest) m =
     (case span_at ids i of
        None \<Rightarrow> None
      | Some k \<Rightarrow>
          (case span_at vals i of
             None \<Rightarrow> None
           | Some v \<Rightarrow> insert_knobs ids vals rest (if m k = None then m(k \<mapsto> v) else m)))"

text \<open>Lines 301-314: the algorithm message of the backend config.\<close>

definition make_algorithm :: "ConvBackendConfig \<Rightarrow> AlgorithmProto option" where
  "make_algorithm b =
     do {
       knobs \<leftarrow> insert_knobs (knob_ids b) (knob_values b) [0..<length (knob_ids b)] Map.empty;
       Some \<lparr>algo_id = ConvBackendConfig.algorithm b,
             math_type = (if tensor_ops_enabled b then TENSOR_OP_MATH else DEFAULT_MATH),
             AlgorithmProto.is_cudnn_frontend = ConvBackendConfig.is_cudnn_frontend b,
             AlgorithmProto.workspace_size =
               (if 0 \<le> sint (ConvBackendConfig.workspace_size b)
                then Some (ConvBackendConfig.workspace_size b) else None),
             tuning_knobs = knobs\<rparr>
     }"

text \<open>
  \<open>GetConvDescriptor\<close>. \<open>None\<close> is an out-of-range read (undefined behaviour in the
  C++). The fields of the backend config that no attribute sets keep the default of the
  message (zero, the empty string).
\<close>

definition GetConvDescriptor ::
  "CudnnConvKind \<Rightarrow> StridedMemrefView \<Rightarrow> StridedMemrefView \<Rightarrow> StridedMemrefView
     \<Rightarrow> FlatMemrefView \<Rightarrow> ConvDimensionNumbers \<Rightarrow> Window \<Rightarrow> ConvBackendConfig \<Rightarrow> ConvAttrs
     \<Rightarrow> FusedConvAttrs option \<Rightarrow> SideInputAttrs option \<Rightarrow> LeakyReluAlphaAttrs option
     \<Rightarrow> GpuConvDescriptor option" where
  "GetConvDescriptor knd operand0 operand1 output scratch dims w b attrs
       fused side_input leakyrelu_alpha_attrs =
     do {
       let op0 = apply_layout operand0 (operand_0_layout b);
       let op1 = apply_layout operand1 (operand_1_layout b);
       let res = apply_layout output (result_layout b);
       let dns = make_dnums dims;
       win \<leftarrow> make_window dns op0 w;
       algo \<leftarrow> make_algorithm b;
       Some \<lparr>kind = knd,
             backend_config =
               \<lparr>CudnnConvBackendConfig.algorithm = algo,
                conv_result_scale = result_scale attrs,
                CudnnConvBackendConfig.activation_mode =
                  (case fused of None \<Rightarrow> 0 | Some f \<Rightarrow> FusedConvAttrs.activation_mode f),
                CudnnConvBackendConfig.side_input_scale =
                  (case side_input of None \<Rightarrow> 0
                   | Some s \<Rightarrow> SideInputAttrs.side_input_scale s),
                leakyrelu_alpha =
                  (case leakyrelu_alpha_attrs of None \<Rightarrow> 0 | Some l \<Rightarrow> leaky_relu_alpha l),
                reordered_int8_nchw_vect = is_cudnn_reordered_int8 b,
                serialized_graph = ''''\<rparr>,
             operand0_shape = op0,
             operand1_shape = op1,
             result_shape = res,
             scratch_size = size_in_bytes scratch,
             window = win,
             dnums = dns,
             GpuConvDescriptor.feature_group_count = ConvAttrs.feature_group_count attrs\<rparr>
     }"

section \<open>External collaborators and the state they share\<close>

text \<open>
  \<open>se::DeviceMemoryBase\<close>: an opaque device address and a byte count (\<open>uint64_t\<close>), called
  \<open>bytes\<close> here.
\<close>

record DeviceMemoryBase =
  opaque :: nat
  bytes :: int64

record AlgorithmDesc =
  algo :: int64
  use_tensor_ops :: bool

text \<open>
  \<open>GpuConvConfig\<close> (gpu_conv_runner.h): the field that \<open>DoConv\<close> writes, and the rest of
  the compiled configuration as one opaque value.
\<close>

record GpuConvConfig =
  algorithm :: AlgorithmDesc
  compiled :: nat

text \<open>
  \<open>ConvRunner\<close> (conv.h) holds the configuration; the lazily initialised
  \<open>GenericConvRunner\<close> beside it belongs to the device primitive and is not modelled.
\<close>

record ConvRunner =
  config :: GpuConvConfig

text \<open>\<open>AutotuneResult\<close>: \<open>conv().algorithm()\<close>, \<open>conv().tensor_ops_enabled()\<close>, \<open>scratch_bytes()\<close>.\<close>

record AutotuneResult =
  conv_algorithm :: int64
  conv_tensor_ops_enabled :: bool
  scratch_bytes :: int64

type_synonym StreamExecutor = nat

text \<open>
  What \<open>DoConv\<close> reads from \<open>ServiceExecutableRunOptions\<close>: \<open>stream()->parent()\<close> and
  \<open>device_ordinal()\<close>.
\<close>

record ServiceExecutableRunOptions =
  stream_parent :: StreamExecutor
  device_ordinal :: int32

text \<open>
  Every call of an external capability is recorded, with its arguments, in a trace:
  plan compilation (\<open>GetGpuConvConfig\<close>), the algorithm search
  (\<open>PickBestAlgorithmWithAllocatedBuffer\<close>), the allocator (\<open>Allocate\<close>) and the device
  primitive (\<open>RunGpuConv\<close>).
\<close>

datatype event =
    EvGetGpuConvConfig GpuConvDescriptor
  | EvPickBestAlgorithm GpuConvConfig "DeviceMemoryBase list" "DeviceMemoryBase list"
  | EvAllocate int32 int64
  | EvRunGpuConv GpuConvConfig "DeviceMemoryBase list" "DeviceMemoryBase list" DeviceMemoryBase

fun is_search :: "event \<Rightarrow> bool" where
  "is_search (EvPickBestAlgorithm c bs rs) = True"
| "is_search e = False"

fun is_allocate :: "event \<Rightarrow> bool" where
  "is_allocate (EvAllocate ordinal n) = True"
| "is_allocate e = False"

fun is_run :: "event \<Rightarrow> bool" where
  "is_run (EvRunGpuConv c bs rs s) = True"
| "is_run e = False"

definition searches :: "event list \<Rightarrow> nat" where
  "searches tr = length (filter is_search tr)"

text \<open>
  The capabilities themselves are parameters: each answers from the history of calls so
  far and its arguments. \<open>GOOGLE_CUDA\<close> is the build flag of lines 38 and 418.
\<close>

record Env =
  GOOGLE_CUDA :: bool
  GetGpuConvConfig :: "event list \<Rightarrow> GpuConvDescriptor \<Rightarrow> error + GpuConvConfig"
  PickBestAlgorithmWithAllocatedBuffer ::
    "event list \<Rightarrow> GpuConvConfig \<Rightarrow> DeviceMemoryBase list \<Rightarrow> DeviceMemoryBase list
       \<Rightarrow> error + AutotuneResult"
  Allocate :: "event list \<Rightarrow> int32 \<Rightarrow> int64 \<Rightarrow> error + nat"
  RunGpuConv ::
    "event list \<Rightarrow> GpuConvConfig \<Rightarrow> DeviceMemoryBase list \<Rightarrow> DeviceMemoryBase list
       \<Rightarrow> DeviceMemoryBase \<Rightarrow> Status"
  stream_ok :: "event list \<Rightarrow> bool"
  GetDeviceAddress :: "StridedMemrefView \<Rightarrow> DeviceMemoryBase"
  GetDeviceAddressFlat :: "FlatMemrefView \<Rightarrow> DeviceMemoryBase"

text \<open>
  The shared state: the two-level plan cache \<open>runners_\<close> of \<open>ConvRunners\<close> (stream
  executor, then call-site id), here \<open>runners\<close>, and the trace.
\<close>

type_synonym StreamExecutorConvRunners = "int64 \<rightharpoonup> ConvRunner"

record World =
  runners :: "StreamExecutor \<rightharpoonup> StreamExecutorConvRunners"
  trace :: "event list"

definition log_event :: "event \<Rightarrow> World \<Rightarrow> World" where
  "log_event e wld = wld\<lparr>trace := trace wld @ [e]\<rparr>"

section \<open>The plan cache\<close>

text \<open>
  \<open>ConvRunners::operator()\<close> (lines 197-201) returns \<open>&runners_[executor]\<close>: indexing
  creates an empty sub-cache for an executor that has none, and the address returned is
  that of the entry of this executor. The type of \<open>runners_\<close> is declared in conv.h,
  not in this file; spec 3 gives it as a mapping from execution-context identity to a
  mapping from call-site id to plan. Every key has an entry of its own, so the address
  of a sub-cache is modelled by the key of its entry.
\<close>

definition ConvRunners_call :: "StreamExecutor \<Rightarrow> World \<Rightarrow> StreamExecutor \<times> World" where
  "ConvRunners_call executor wld =
     (executor,
      case runners wld executor of
        None \<Rightarrow> wld\<lparr>runners := (runners wld)(executor \<mapsto> Map.empty)\<rparr>
      | Some sub \<Rightarrow> wld)"

text \<open>
  Modelled from the spec: \<open>State<ConvRunner>\<close> is declared in the host runtime, not in
  this file. Spec 4.2: a plan is looked up by execution-context identity first, then by
  call-site id within that context. So a state is the slot of one call-site id
  (\<open>.State<ConvRunner>("uid")\<close>, line 598) in the sub-cache of one executor;
  \<open>deref\<close> reads the plan behind it and \<open>store\<close> writes it.
\<close>

record ConvRunnerState =
  sub_cache :: StreamExecutor
  state_id :: int64

definition deref :: "ConvRunnerState \<Rightarrow> World \<Rightarrow> ConvRunner option" where
  "deref st wld =
     (case runners wld (sub_cache st) of
        None \<Rightarrow> None
      | Some sub \<Rightarrow> sub (state_id st))"

definition store :: "ConvRunnerState \<Rightarrow> ConvRunner \<Rightarrow> World \<Rightarrow> World" where
  "store st r wld =
     wld\<lparr>runners := (runners wld)(sub_cache st \<mapsto>
        (case runners wld (sub_cache st) of
           None \<Rightarrow> Map.empty
         | Some sub \<Rightarrow> sub)(state_id st \<mapsto> r))\<rparr>"

text \<open>
  Modelled from the spec: \<open>State<T>::GetOrCreate\<close> is declared in the host runtime, not
  in this file. Spec 4.2: if no plan exists for the key, invoke the builder once,
  install the plan and return it; if a plan exists, return it without invoking the
  builder; if the builder fails, install nothing and propagate the error. The plan
  returned is the slot itself, so the result is only the status.
\<close>

definition GetOrCreate ::
  "ConvRunnerState \<Rightarrow> (World \<Rightarrow> (error + ConvRunner) \<times> World) \<Rightarrow> World \<Rightarrow> Status \<times> World" where
  "GetOrCreate st create wld =
     (case deref st wld of
        Some r \<Rightarrow> (OkStatus, wld)
      | None \<Rightarrow>
          (case create wld of
             (Inl e, wld') \<Rightarrow> (Inl e, wld')
           | (Inr r, wld') \<Rightarrow> (OkStatus, store st r wld')))"

section \<open>\<open>DoConv\<close> (lines 333-474)\<close>

text \<open>Lines 371-377: the sentinel \<open>-1\<close> asks for autotuning and is replaced by \<open>0\<close>.\<close>

definition runtime_autotuning :: "ConvBackendConfig \<Rightarrow> bool" where
  "runtime_autotuning b = (ConvBackendConfig.algorithm b = - 1)"

definition pin_algorithm :: "ConvBackendConfig \<Rightarrow> ConvBackendConfig" where
  "pin_algorithm b =
     (if ConvBackendConfig.algorithm b = - 1 then b\<lparr>ConvBackendConfig.algorithm := 0\<rparr> else b)"

text \<open>
  Lines 382-397, the builder handed to \<open>GetOrCreate\<close>: the descriptor of the first
  output, with the serialized graph when there is one, compiled by \<open>GetGpuConvConfig\<close>.
  \<open>outputs[0]\<close> is out of range on an empty list.
\<close>

definition set_serialized_graph :: "string option \<Rightarrow> GpuConvDescriptor \<Rightarrow> GpuConvDescriptor" where
  "set_serialized_graph g descriptor =
     (case g of
        None \<Rightarrow> descriptor
      | Some text \<Rightarrow>
          descriptor\<lparr>backend_config := (backend_config descriptor)\<lparr>serialized_graph := text\<rparr>\<rparr>)"

definition make_descriptor ::
  "CudnnConvKind \<Rightarrow> StridedMemrefView \<Rightarrow> StridedMemrefView \<Rightarrow> StridedMemrefView list
     \<Rightarrow> FlatMemrefView \<Rightarrow> ConvDimensionNumbers \<Rightarrow> Window \<Rightarrow> ConvBackendConfig
     \<Rightarrow> int64 \<Rightarrow> double \<Rightarrow> FusedConvAttrs option \<Rightarrow> SideInputAttrs option
     \<Rightarrow> LeakyReluAlphaAttrs option \<Rightarrow> string option \<Rightarrow> GpuConvDescriptor option" where
  "make_descriptor knd operand0 operand1 outputs scratch conv_dims w b fgc rscale
       fused_attrs side_input_attrs leakyrelu_alpha_attrs graph =
     do {
       output \<leftarrow> span_at outputs 0;
       descriptor \<leftarrow> GetConvDescriptor knd operand0 operand1 output scratch conv_dims w b
          \<lparr>ConvAttrs.feature_group_count = fgc, result_scale = rscale\<rparr>
          fused_attrs side_input_attrs leakyrelu_alpha_attrs;
       Some (set_serialized_graph graph descriptor)
     }"

definition conv_builder ::
  "Env \<Rightarrow> GpuConvDescriptor option \<Rightarrow> World \<Rightarrow> (error + ConvRunner) \<times> World" where
  "conv_builder env descriptor wld =
     (case descriptor of
        None \<Rightarrow> (Inl UndefinedBehavior, wld)
      | Some d \<Rightarrow>
          (case GetGpuConvConfig env (trace wld) d of
             Inl e \<Rightarrow> (Inl e, log_event (EvGetGpuConvConfig d) wld)
           | Inr conv_config \<Rightarrow>
               (Inr \<lparr>config = conv_config\<rparr>, log_event (EvGetGpuConvConfig d) wld)))"

text \<open>
  Lines 417-442. With CUDA the search runs on a copy of the cached configuration and the
  live buffers; its algorithm is written into the cached plan and its scratch
  requirement becomes the scratch buffer size. Without CUDA the call fails.
\<close>

definition autotune ::
  "Env \<Rightarrow> ConvRunnerState \<Rightarrow> DeviceMemoryBase list \<Rightarrow> DeviceMemoryBase list \<Rightarrow> World
     \<Rightarrow> (error + int64) \<times> World" where
  "autotune env conv buffers result_buffers wld =
     (if GOOGLE_CUDA env then
        (case deref conv wld of
           None \<Rightarrow> (Inl UndefinedBehavior, wld)
         | Some r \<Rightarrow>
             let gpu_conv_config = config r;
                 wld1 = log_event (EvPickBestAlgorithm gpu_conv_config buffers result_buffers) wld
             in (case PickBestAlgorithmWithAllocatedBuffer env (trace wld) gpu_conv_config
                        buffers result_buffers of
                   Inl e \<Rightarrow> (Inl e, wld1)
                 | Inr best_algo \<Rightarrow>
                     let algo_desc = \<lparr>algo = conv_algorithm best_algo,
                                      use_tensor_ops = conv_tensor_ops_enabled best_algo\<rparr>
                     in (Inr (scratch_bytes best_algo),
                         store conv (r\<lparr>config := (config r)\<lparr>GpuConvConfig.algorithm := algo_desc\<rparr>\<rparr>)
                           wld1)))
      else
        (Inl (InternalError ''Failed to run runtime autotuner because CUDA is not enabled''),
         wld))"

text \<open>
  Lines 457-463 and 467-473 are the same statements on two scratch buffers: issue the
  primitive, return its error if it has one, then check the stream.
\<close>

definition run_and_check ::
  "Env \<Rightarrow> GpuConvConfig \<Rightarrow> DeviceMemoryBase list \<Rightarrow> DeviceMemoryBase list \<Rightarrow> DeviceMemoryBase
     \<Rightarrow> World \<Rightarrow> Status \<times> World" where
  "run_and_check env cfg buffers result_buffers scratch_buffer wld =
     (let wld1 = log_event (EvRunGpuConv cfg buffers result_buffers scratch_buffer) wld
      in (case RunGpuConv env (trace wld) cfg buffers result_buffers scratch_buffer of
            Inl e \<Rightarrow> (Inl e, wld1)
          | Inr u \<Rightarrow>
              if \<not> stream_ok env (trace wld1)
              then (Inl (InternalError ''run_options stream not ok''), wld1)
              else (OkStatus, wld1)))"

text \<open>
  Lines 444-473. \<open>scratch_buffer_size > scratch_buffer.size()\<close> compares an \<open>int64_t\<close>
  with a \<open>uint64_t\<close>, so it is the unsigned comparison (\<open><\<close> on words). A \<open>conv\<close>
  pointer with no plan behind it cannot occur after \<open>GetOrCreate\<close> has succeeded; the
  model gives it the undefined-behaviour error. The allocated buffer is released when
  the call returns, which no claim here observes.
\<close>

definition run_conv ::
  "Env \<Rightarrow> ServiceExecutableRunOptions \<Rightarrow> ConvRunnerState \<Rightarrow> DeviceMemoryBase list
     \<Rightarrow> DeviceMemoryBase list \<Rightarrow> DeviceMemoryBase \<Rightarrow> int64 \<Rightarrow> World \<Rightarrow> Status \<times> World" where
  "run_conv env run_options conv buffers result_buffers scratch_buffer scratch_buffer_size wld =
     (case deref conv wld of
        None \<Rightarrow> (Inl UndefinedBehavior, wld)
      | Some r \<Rightarrow>
          if bytes scratch_buffer < scratch_buffer_size then
            (let wld1 = log_event (EvAllocate (device_ordinal run_options) scratch_buffer_size) wld
             in (case Allocate env (trace wld) (device_ordinal run_options) scratch_buffer_size of
                   Inl e \<Rightarrow> (Inl e, wld1)
                 | Inr ptr \<Rightarrow>
                     run_and_check env (config r) buffers result_buffers
                       \<lparr>opaque = ptr, bytes = scratch_buffer_size\<rparr> wld1))
          else run_and_check env (config r) buffers result_buffers scratch_buffer wld)"

text \<open>Lines 399-414: the buffer lists.\<close>

definition operand_buffers ::
  "Env \<Rightarrow> StridedMemrefView \<Rightarrow> StridedMemrefView \<Rightarrow> FlatMemrefView option
     \<Rightarrow> StridedMemrefView option \<Rightarrow> StridedMemrefView list \<Rightarrow> DeviceMemoryBase list" where
  "operand_buffers env operand0 operand1 bias side_input extra_operands =
     [GetDeviceAddress env operand0, GetDeviceAddress env operand1]
     @ (case bias of None \<Rightarrow> [] | Some m \<Rightarrow> [GetDeviceAddressFlat env m])
     @ (case side_input of None \<Rightarrow> [] | Some m \<Rightarrow> [GetDeviceAddress env m])
     @ map (GetDeviceAddress env) extra_operands"

text \<open>
  Lines 414-442: the scratch size the execution needs is the size of the supplied buffer,
  or what the search reports.
\<close>

definition required_scratch ::
  "Env \<Rightarrow> ConvBackendConfig \<Rightarrow> ConvRunnerState \<Rightarrow> DeviceMemoryBase list
     \<Rightarrow> DeviceMemoryBase list \<Rightarrow> DeviceMemoryBase \<Rightarrow> World \<Rightarrow> (error + int64) \<times> World" where
  "required_scratch env b conv buffers result_buffers scratch_buffer wld =
     (if runtime_autotuning b then autotune env conv buffers result_buffers wld
      else (Inr (bytes scratch_buffer), wld))"

definition DoConv ::
  "Env \<Rightarrow> CudnnConvKind \<Rightarrow> ServiceExecutableRunOptions \<Rightarrow> ConvRunnerState
     \<Rightarrow> StridedMemrefView \<Rightarrow> StridedMemrefView \<Rightarrow> FlatMemrefView option
     \<Rightarrow> StridedMemrefView option \<Rightarrow> StridedMemrefView list \<Rightarrow> FlatMemrefView \<Rightarrow> int64
     \<Rightarrow> ConvDimensionNumbers \<Rightarrow> Window \<Rightarrow> ConvBackendConfig \<Rightarrow> int64 \<Rightarrow> double
     \<Rightarrow> ActivationMode option \<Rightarrow> double option \<Rightarrow> double option
     \<Rightarrow> StridedMemrefView list \<Rightarrow> string option \<Rightarrow> World \<Rightarrow> Status \<times> World" where
  "DoConv env knd run_options runner operand0 operand1 bias side_input outputs scratch uid
       conv_dims w b fgc rscale act_mode side_scale leaky_alpha extra_operands graph wld =
     (let fused_attrs = map_option (\<lambda>m. \<lparr>FusedConvAttrs.activation_mode = m\<rparr>) act_mode;
          side_input_attrs = map_option (\<lambda>s. \<lparr>SideInputAttrs.side_input_scale = s\<rparr>) side_scale;
          leakyrelu_alpha_attrs = map_option (\<lambda>a. \<lparr>leaky_relu_alpha = a\<rparr>) leaky_alpha;
          descriptor = make_descriptor knd operand0 operand1 outputs scratch conv_dims w
                         (pin_algorithm b) fgc rscale fused_attrs side_input_attrs
                         leakyrelu_alpha_attrs graph
      in (case GetOrCreate runner (conv_builder env descriptor) wld of
            (Inl e, wld1) \<Rightarrow> (Inl e, wld1)
          | (Inr u, wld1) \<Rightarrow>
              let buffers = operand_buffers env operand0 operand1 bias side_input extra_operands;
                  result_buffers = map (GetDeviceAddress env) outputs;
                  scratch_buffer = GetDeviceAddressFlat env scratch
              in (case required_scratch env b runner buffers result_buffers scratch_buffer wld1 of
                    (Inl e, wld2) \<Rightarrow> (Inl e, wld2)
                  | (Inr scratch_buffer_size, wld2) \<Rightarrow>
                      run_conv env run_options runner buffers result_buffers scratch_buffer
                        scratch_buffer_size wld2)))"

text \<open>\<open>ConvImpl\<close> (lines 476-505): the fixed-arity call has one output.\<close>

definition ConvImpl ::
  "Env \<Rightarrow> CudnnConvKind \<Rightarrow> ServiceExecutableRunOptions \<Rightarrow> ConvRunnerState
     \<Rightarrow> StridedMemrefView \<Rightarrow> StridedMemrefView \<Rightarrow> FlatMemrefView option
     \<Rightarrow> StridedMemrefView option \<Rightarrow> StridedMemrefView \<Rightarrow> FlatMemrefView \<Rightarrow> int64
     \<Rightarrow> ConvDimensionNumbers \<Rightarrow> Window \<Rightarrow> ConvBackendConfig \<Rightarrow> int64 \<Rightarrow> double
     \<Rightarrow> ActivationMode option \<Rightarrow> double option \<Rightarrow> double option
     \<Rightarrow> World \<Rightarrow> Status \<times> World" where
  "ConvImpl env knd run_options runner operand0 operand1 bias side_input output scratch uid
       conv_dims w b fgc rscale act_mode side_scale leaky_alpha wld =
     DoConv env knd run_options runner operand0 operand1 bias side_input [output] scratch uid
       conv_dims w b fgc rscale act_mode side_scale leaky_alpha [] None wld"

text \<open>\<open>n\<close> invocations of one call, each on the state the one before left.\<close>

fun invocations :: "nat \<Rightarrow> (World \<Rightarrow> Status \<times> World) \<Rightarrow> World \<Rightarrow> World" where
  "invocations 0 call wld = wld"
| "invocations (Suc n) call wld = invocations n call (snd (call wld))"

section \<open>\<open>ConvGraphImpl\<close> (lines 507-564)\<close>

text \<open>
  Modelled from the spec: \<open>CustomCall::RemainingArgs\<close> is declared in the host runtime,
  not in this file. It is the flat argument list after the two main operands; an entry
  resolves as a strided view, as a flat view, or not at all, and \<open>get<T>(index)\<close> fails
  when \<open>index\<close> is not a position of the list or the entry does not resolve as \<open>T\<close>
  (spec 4.4: any shortfall is a binding failure). \<open>size()\<close> is a \<open>size_t\<close>.
\<close>

record RemainingArg =
  as_strided :: "StridedMemrefView option"
  as_flat :: "FlatMemrefView option"

definition args_size :: "RemainingArg list \<Rightarrow> int64" where
  "args_size args = word_of_nat (length args)"

definition get_StridedMemrefView :: "RemainingArg list \<Rightarrow> int64 \<Rightarrow> StridedMemrefView option" where
  "get_StridedMemrefView args index =
     (case span_at args (unat index) of None \<Rightarrow> None | Some a \<Rightarrow> as_strided a)"

definition get_FlatMemrefView :: "RemainingArg list \<Rightarrow> int64 \<Rightarrow> FlatMemrefView option" where
  "get_FlatMemrefView args index =
     (case span_at args (unat index) of None \<Rightarrow> None | Some a \<Rightarrow> as_flat a)"

text \<open>An \<open>int\<close> below \<open>INT_MAX\<close> can be incremented without overflow.\<close>

lemma sint_lt_max:
  assumes "(i::int32) \<noteq> 2147483647"
  shows "sint i < 2147483647"
proof -
  have "sint i < 2147483648"
    using sint_lt [of i] by simp
  moreover have "sint i \<noteq> 2147483647"
  proof
    assume "sint i = 2147483647"
    then have "word_of_int (sint i) = (word_of_int 2147483647 :: int32)"
      by simp
    then have "i = 2147483647"
      by simp
    with assms show False
      by simp
  qed
  ultimately show ?thesis
    by linarith
qed

lemma sint_succ:
  assumes "(i::int32) \<noteq> 2147483647"
  shows "sint (i + 1) = sint i + 1"
proof -
  have a: "sint i < 2147483647"
    using assms by (rule sint_lt_max)
  have b: "- 2147483648 \<le> sint i"
    using sint_ge [of i] by simp
  have "sint (i + 1) = signed_take_bit 31 (sint i + 1)"
    by (simp add: sint_word_ariths)
  also have "\<dots> = sint i + 1"
    using a b by (intro signed_take_bit_int_eq_self) simp_all
  finally show ?thesis .
qed

text \<open>
  The loop of lines 532-539 and the loop of lines 542-549 have one shape:
  \<open>for (int i = start; i < bound; i++)\<close> with \<open>bound\<close> a \<open>size_t\<close>, so that \<open>i\<close> is
  converted to \<open>size_t\<close> for the comparison and for \<open>get\<close>; a failed \<open>get\<close> returns the
  internal error with the message of the loop. Incrementing \<open>INT_MAX\<close> is undefined.
\<close>

function args_loop ::
  "RemainingArg list \<Rightarrow> int64 \<Rightarrow> string \<Rightarrow> int32 \<Rightarrow> StridedMemrefView list
     \<Rightarrow> error + StridedMemrefView list" where
  "args_loop args bound msg i acc =
     (if (scast i :: int64) < bound then
        (case get_StridedMemrefView args (scast i) of
           None \<Rightarrow> Inl (InternalError msg)
         | Some arg \<Rightarrow>
             if i = 2147483647 then Inl UndefinedBehavior
             else args_loop args bound msg (i + 1) (acc @ [arg]))
      else Inr acc)"
  by pat_completeness auto
termination
proof (relation "measure (\<lambda>(args, bound, msg, i, acc). nat (2147483647 - sint i))")
  show "wf (measure (\<lambda>(args, bound, msg, i, acc). nat (2147483647 - sint i)))"
    by simp
next
  fix args :: "RemainingArg list" and bound :: int64 and msg :: string and i :: int32
    and acc :: "StridedMemrefView list" and arg :: StridedMemrefView
  assume "i \<noteq> 2147483647"
  then show "((args, bound, msg, i + 1, acc @ [arg]), (args, bound, msg, i, acc))
       \<in> measure (\<lambda>(args, bound, msg, i, acc). nat (2147483647 - sint i))"
    using sint_lt_max [of i] sint_succ [of i] by simp
qed

text \<open>
  \<open>args.size() - n_aux_outputs - 2\<close> is computed in \<open>size_t\<close>: the \<open>int32_t\<close> count is
  sign-extended and the subtraction wraps around. \<open>int i = args.size() - n_aux_outputs - 2\<close>
  narrows that value to 32 bits.
\<close>

definition ConvGraphImpl ::
  "Env \<Rightarrow> CudnnConvKind \<Rightarrow> ServiceExecutableRunOptions \<Rightarrow> ConvRunnerState
     \<Rightarrow> StridedMemrefView \<Rightarrow> StridedMemrefView \<Rightarrow> RemainingArg list \<Rightarrow> int64
     \<Rightarrow> ConvDimensionNumbers \<Rightarrow> Window \<Rightarrow> ConvBackendConfig \<Rightarrow> int64 \<Rightarrow> double
     \<Rightarrow> int32 \<Rightarrow> string \<Rightarrow> World \<Rightarrow> Status \<times> World" where
  "ConvGraphImpl env knd run_options runner operand0 operand1 args uid conv_dims w b fgc rscale
       n_aux_outputs graph wld =
     (let first_output = args_size args - scast n_aux_outputs - 2
      in (case args_loop args first_output
                 ''Failed to get operand buffer for convolution graph'' 0 [] of
            Inl e \<Rightarrow> (Inl e, wld)
          | Inr extra_operands \<Rightarrow>
              (case args_loop args (args_size args - 1)
                      ''Failed to get output buffer for convolution graph''
                      (ucast first_output) [] of
                 Inl e \<Rightarrow> (Inl e, wld)
               | Inr outputs \<Rightarrow>
                   (case get_FlatMemrefView args (args_size args - 1) of
                      None \<Rightarrow>
                        (Inl (InternalError
                           ''Failed to get scratch buffer for convolution graph''), wld)
                    | Some scratch \<Rightarrow>
                        DoConv env knd run_options runner operand0 operand1 None None
                          outputs scratch uid conv_dims w b fgc rscale None None None
                          extra_operands (Some graph) wld))))"

section \<open>Example inputs\<close>

text \<open>
  A forward convolution of a 5 by 7 input with a 3 by 3 filter, in NCHW and OIHW order:
  the concrete inputs on which the theorems below are evaluated.
\<close>

definition example_operand0 :: StridedMemrefView where
  "example_operand0 =
     \<lparr>StridedMemrefView.dtype = 11, StridedMemrefView.data = 4096,
      sizes = [1, 1, 5, 7], strides = [35, 35, 7, 1]\<rparr>"

definition example_operand1 :: StridedMemrefView where
  "example_operand1 =
     \<lparr>StridedMemrefView.dtype = 11, StridedMemrefView.data = 8192,
      sizes = [1, 1, 3, 3], strides = [9, 9, 3, 1]\<rparr>"

definition example_output :: StridedMemrefView where
  "example_output =
     \<lparr>StridedMemrefView.dtype = 11, StridedMemrefView.data = 12288,
      sizes = [1, 1, 3, 5], strides = [15, 15, 5, 1]\<rparr>"

definition example_scratch :: FlatMemrefView where
  "example_scratch =
     \<lparr>FlatMemrefView.dtype = 2, FlatMemrefView.data = 16384, size_in_bytes = 64\<rparr>"

definition example_dims :: ConvDimensionNumbers where
  "example_dims =
     \<lparr>input_batch_dim = 0, input_feature_dim = 1, input_spatial_dims = [2, 3],
      kernel_in_feature_dim = 1, kernel_out_feature_dim = 0, kernel_spatial_dims = [2, 3],
      output_batch_dim = 0, output_feature_dim = 1, output_spatial_dims = [2, 3]\<rparr>"

definition example_window :: Window where
  "example_window =
     \<lparr>window_strides = [1, 1], padding = [0, 0], lhs_dilation = [1, 1],
      rhs_dilation = [1, 1], Window.window_reversal = [0, 0]\<rparr>"

definition example_backend_config :: "int64 \<Rightarrow> int64 \<Rightarrow> ConvBackendConfig" where
  "example_backend_config alg ws =
     \<lparr>ConvBackendConfig.algorithm = alg, tensor_ops_enabled = False,
      ConvBackendConfig.is_cudnn_frontend = False, is_cudnn_reordered_int8 = False,
      knob_ids = [], knob_values = [],
      operand_0_layout = [3, 2, 1, 0], operand_1_layout = [3, 2, 1, 0],
      result_layout = [3, 2, 1, 0], ConvBackendConfig.workspace_size = ws\<rparr>"

definition example_attrs :: ConvAttrs where
  "example_attrs = \<lparr>ConvAttrs.feature_group_count = 1, result_scale = 1\<rparr>"

text \<open>
  The window dimension that the loop of lines 279-293 builds at \<open>index\<close> when every read
  is in range: the size is the extent of operand 0 at the axis that the kernel spatial
  dimension names, the other fields are the entries of the window arrays at \<open>index\<close>.
\<close>

definition window_entry ::
  "ConvDimensionNumbers \<Rightarrow> StridedMemrefView \<Rightarrow> Window \<Rightarrow> nat \<Rightarrow> WindowDimension" where
  "window_entry dims operand0 w index =
     \<lparr>wsize = sizes operand0 ! nat (sint (kernel_spatial_dims dims ! index)),
      stride = window_strides w ! index,
      padding_low = padding w ! index,
      padding_high = padding w ! index,
      base_dilation = lhs_dilation w ! index,
      window_dilation = rhs_dilation w ! index,
      WindowDimension.window_reversal = (Window.window_reversal w ! index \<noteq> 0)\<rparr>"

section \<open>Statuses and an example environment\<close>

text \<open>The status that lines 457-463 return once the primitive has been issued.\<close>

definition run_status ::
  "Env \<Rightarrow> event list \<Rightarrow> GpuConvConfig \<Rightarrow> DeviceMemoryBase list \<Rightarrow> DeviceMemoryBase list
     \<Rightarrow> DeviceMemoryBase \<Rightarrow> Status" where
  "run_status env tr cfg bs rs s =
     (case RunGpuConv env tr cfg bs rs s of
        Inl e \<Rightarrow> Inl e
      | Inr u \<Rightarrow>
          if stream_ok env (tr @ [EvRunGpuConv cfg bs rs s]) then OkStatus
          else Inl (InternalError ''run_options stream not ok''))"

text \<open>
  An environment in which every capability succeeds: compilation keeps the algorithm id
  of the descriptor, the search picks algorithm 7 with 128 scratch bytes, the allocator
  returns the address 20480. The flag is the build flag. The call site 42 of executor 1
  starts with an empty plan cache and an empty trace; \<open>example_call\<close> is the forward
  convolution of the example inputs at that call site, with a 64-byte scratch buffer.
\<close>

definition example_env :: "bool \<Rightarrow> Env" where
  "example_env cuda =
     \<lparr>GOOGLE_CUDA = cuda,
      GetGpuConvConfig = (\<lambda>tr d. Inr
         \<lparr>GpuConvConfig.algorithm =
            \<lparr>algo = algo_id (CudnnConvBackendConfig.algorithm (backend_config d)),
             use_tensor_ops = False\<rparr>,
          compiled = 1\<rparr>),
      PickBestAlgorithmWithAllocatedBuffer = (\<lambda>tr cfg bs rs. Inr
         \<lparr>conv_algorithm = 7, conv_tensor_ops_enabled = True, scratch_bytes = 128\<rparr>),
      Allocate = (\<lambda>tr ordinal n. Inr 20480),
      RunGpuConv = (\<lambda>tr cfg bs rs s. OkStatus),
      stream_ok = (\<lambda>tr. True),
      GetDeviceAddress = (\<lambda>m. \<lparr>opaque = StridedMemrefView.data m, bytes = 4 * prod_list (sizes m)\<rparr>),
      GetDeviceAddressFlat = (\<lambda>m. \<lparr>opaque = FlatMemrefView.data m, bytes = size_in_bytes m\<rparr>)\<rparr>"

definition example_world :: World where
  "example_world = \<lparr>runners = Map.empty, trace = []\<rparr>"

definition example_run_options :: ServiceExecutableRunOptions where
  "example_run_options = \<lparr>stream_parent = 1, device_ordinal = 0\<rparr>"

definition example_runner :: ConvRunnerState where
  "example_runner = \<lparr>sub_cache = 1, state_id = 42\<rparr>"

definition example_call :: "bool \<Rightarrow> int64 \<Rightarrow> World \<Rightarrow> Status \<times> World" where
  "example_call cuda alg =
     DoConv (example_env cuda) kForward example_run_options example_runner
       example_operand0 example_operand1 None None [example_output] example_scratch 42
       example_dims example_window (example_backend_config alg (- 1)) 1 1
       None None None [] None"

text \<open>The strided view that entry \<open>i\<close> of the flat argument list resolves to.\<close>

definition strided_at :: "RemainingArg list \<Rightarrow> nat \<Rightarrow> StridedMemrefView" where
  "strided_at args i = the (as_strided (args ! i))"

text \<open>
  The graph call of the spec's example: seven arguments after the two main operands,
  every one a buffer that resolves both ways; the last is the scratch buffer.
\<close>

definition example_buffer :: "nat \<Rightarrow> StridedMemrefView" where
  "example_buffer n =
     \<lparr>StridedMemrefView.dtype = 11, StridedMemrefView.data = 65536 + 4096 * n,
      sizes = [1, 1, 3, 5], strides = [15, 15, 5, 1]\<rparr>"

definition memref_arg :: "StridedMemrefView \<Rightarrow> RemainingArg" where
  "memref_arg m =
     \<lparr>as_strided = Some m,
      as_flat = Some \<lparr>FlatMemrefView.dtype = StridedMemrefView.dtype m,
                      FlatMemrefView.data = StridedMemrefView.data m,
                      size_in_bytes = 4 * prod_list (sizes m)\<rparr>\<rparr>"

definition example_args :: "RemainingArg list" where
  "example_args =
     [memref_arg (example_buffer 0), memref_arg (example_buffer 1),
      memref_arg (example_buffer 2), memref_arg (example_buffer 3),
      memref_arg (example_buffer 4), memref_arg (example_buffer 5),
      \<lparr>as_strided = Some \<lparr>StridedMemrefView.dtype = 2, StridedMemrefView.data = 16384,
                           sizes = [64], strides = [1]\<rparr>,
       as_flat = Some example_scratch\<rparr>]"

section \<open>Properties of the descriptor builder\<close>

lemmas descriptor_defs =
  GetConvDescriptor_def make_window_def make_algorithm_def window_dimension_def
  shape_dimensions_def span_at_def apply_layout_def MakeShapeWithDenseLayout_def
  make_dnums_def Let_def

lemmas example_defs =
  example_operand0_def example_operand1_def example_output_def example_scratch_def
  example_dims_def example_window_def example_backend_config_def example_attrs_def

lemma example_GetConvDescriptor:
  "GetConvDescriptor kForward example_operand0 example_operand1 example_output example_scratch
     example_dims example_window (example_backend_config alg ws) example_attrs None None None
   \<noteq> None"
  by (simp add: descriptor_defs example_defs upt_rec [of 0] upt_rec [of 1] upt_rec [of 2])

lemma make_algorithm_workspace:
  "make_algorithm b = Some a \<Longrightarrow>
   AlgorithmProto.workspace_size a =
     (if 0 \<le> sint (ConvBackendConfig.workspace_size b)
      then Some (ConvBackendConfig.workspace_size b) else None)"
  by (auto simp: make_algorithm_def split: Option.bind_splits)

lemma make_algorithm_algo_id:
  "make_algorithm b = Some a \<Longrightarrow> algo_id a = ConvBackendConfig.algorithm b"
  by (auto simp: make_algorithm_def split: Option.bind_splits)

text \<open>
  Claim C9. Whenever the descriptor is built, the workspace size of its algorithm is the
  workspace size of the backend config when that is at least 0, and is unset when it is
  negative.
\<close>

theorem GetConvDescriptor_workspace_size:
  "GetConvDescriptor knd operand0 operand1 output scratch dims w b attrs fused side_input leaky
     = Some d \<Longrightarrow>
   AlgorithmProto.workspace_size (CudnnConvBackendConfig.algorithm (backend_config d)) =
     (if 0 \<le> sint (ConvBackendConfig.workspace_size b)
      then Some (ConvBackendConfig.workspace_size b) else None)"
  by (auto simp: GetConvDescriptor_def Let_def make_algorithm_workspace
      split: Option.bind_splits)

theorem GetConvDescriptor_workspace_size_witness:
  "GetConvDescriptor kForward example_operand0 example_operand1 example_output example_scratch
     example_dims example_window (example_backend_config 0 1024) example_attrs None None None
     \<noteq> None
   \<and> AlgorithmProto.workspace_size (CudnnConvBackendConfig.algorithm (backend_config (the
        (GetConvDescriptor kForward example_operand0 example_operand1 example_output
           example_scratch example_dims example_window (example_backend_config 0 1024)
           example_attrs None None None)))) = Some 1024
   \<and> AlgorithmProto.workspace_size (CudnnConvBackendConfig.algorithm (backend_config (the
        (GetConvDescriptor kForward example_operand0 example_operand1 example_output
           example_scratch example_dims example_window (example_backend_config 0 (- 1))
           example_attrs None None None)))) = None"
proof -
  have built: "GetConvDescriptor kForward example_operand0 example_operand1 example_output
      example_scratch example_dims example_window (example_backend_config 0 ws) example_attrs
      None None None
    = Some (the (GetConvDescriptor kForward example_operand0 example_operand1 example_output
      example_scratch example_dims example_window (example_backend_config 0 ws) example_attrs
      None None None))" for ws
    using example_GetConvDescriptor [of 0 ws] by simp
  show ?thesis
    using example_GetConvDescriptor [of 0 1024]
      GetConvDescriptor_workspace_size [OF built [of 1024]]
      GetConvDescriptor_workspace_size [OF built [of "- 1"]]
    by (simp add: example_backend_config_def)
qed

text \<open>
  Claim C1. The claim says that the size of a built window dimension is the extent of
  operand 1, the kernel, at the kernel spatial axis, and the comment of lines 281-284
  says the same; line 286 reads \<open>descriptor.operand0_shape\<close>. On the example the kernel
  spatial axes are 2 and 3, operand 0 has the extents 5 and 7 there and operand 1 has the
  extents 3 and 3: the built window sizes are 5 and 7.
\<close>

theorem GetConvDescriptor_window_size_reads_operand0:
  "map_option (\<lambda>d. (map wsize (window d), map ((!) (dimensions (operand1_shape d))) [2, 3]))
     (GetConvDescriptor kForward example_operand0 example_operand1 example_output
        example_scratch example_dims example_window (example_backend_config 0 (- 1))
        example_attrs None None None)
   = Some ([5, 7], [3, 3])"
  by (simp add: descriptor_defs example_defs upt_rec [of 0] upt_rec [of 1] upt_rec [of 2])

text \<open>Narrowing a valid axis to \<open>int\<close> keeps its value.\<close>

lemma sint_scast_axis:
  fixes d :: int64
  assumes "0 \<le> sint d" and "sint d < 2147483648"
  shows "sint (scast d :: int32) = sint d"
proof -
  have "sint (scast d :: int32) = sint (word_of_int (sint d) :: int32)"
    by (simp only: scast_eq)
  also have "\<dots> = signed_take_bit 31 (sint d)"
    by (simp only: sint_sbintrunc') simp
  also have "\<dots> = sint d"
    using assms by (intro signed_take_bit_int_eq_self) simp_all
  finally show ?thesis .
qed

lemma add_dimensions_map:
  "(\<And>i. i \<in> set idxs \<Longrightarrow> window_dimension dns shp w i = Some (f i)) \<Longrightarrow>
   add_dimensions dns shp w idxs acc = Some (acc @ map f idxs)"
  by (induction idxs arbitrary: acc) simp_all

lemma add_dimensions_length:
  "add_dimensions dns shp w idxs acc = Some ws \<Longrightarrow> length ws = length acc + length idxs"
  by (induction idxs arbitrary: acc) (auto split: option.splits)

lemma make_window_length:
  "make_window dns shp w = Some ws \<Longrightarrow> length ws = length (window_strides w)"
  by (auto simp: make_window_def dest: add_dimensions_length)

lemma insert_knobs_total:
  "(\<And>i. i \<in> set idxs \<Longrightarrow> i < length ids \<and> i < length vals) \<Longrightarrow>
   \<exists>m'. insert_knobs ids vals idxs m = Some m'"
  by (induction idxs arbitrary: m) (simp_all add: span_at_def)

lemma window_dimension_in_bounds:
  assumes "i < length (window_strides w)"
    and "length (window_strides w) \<le> length (padding w)"
    and "length (window_strides w) \<le> length (lhs_dilation w)"
    and "length (window_strides w) \<le> length (rhs_dilation w)"
    and "length (window_strides w) \<le> length (Window.window_reversal w)"
    and "length (window_strides w) \<le> length (kernel_spatial_dims dims)"
    and "0 \<le> sint (kernel_spatial_dims dims ! i)"
    and "sint (kernel_spatial_dims dims ! i) < int (length (sizes operand0))"
    and "length (sizes operand0) < 2 ^ 31"
  shows "window_dimension (make_dnums dims) (apply_layout operand0 layout) w i
         = Some (window_entry dims operand0 w i)"
proof -
  have "sint (kernel_spatial_dims dims ! i) < 2147483648"
    using assms(8,9) by simp
  then have k: "sint (scast (kernel_spatial_dims dims ! i) :: int32)
                 = sint (kernel_spatial_dims dims ! i)"
    using assms(7) by (rule sint_scast_axis [rotated])
  show ?thesis
    using assms k
    by (simp add: window_dimension_def make_dnums_def apply_layout_def
        MakeShapeWithDenseLayout_def shape_dimensions_def span_at_def window_entry_def)
qed

text \<open>
  Claim C10. The number of window dimensions of a built window is the length of
  \<open>window_strides\<close>. When the padding, the two dilation arrays, the reversal array and
  the kernel spatial dimensions are at least that long and every kernel spatial dimension
  read names an axis of operand 0 (whose rank, like every rank, fits an \<open>int\<close>), no read
  of the loop is out of range: the window is built, and its entry at every index below
  that length is read from the arrays at that same index. With as many knob values as
  knob ids the whole descriptor is built, with that window.
\<close>

theorem make_window_in_bounds:
  "(\<forall>ws. make_window (make_dnums dims) (apply_layout operand0 (operand_0_layout b)) w = Some ws
        \<longrightarrow> length ws = length (window_strides w))
   \<and> (length (window_strides w) \<le> length (padding w)
      \<and> length (window_strides w) \<le> length (lhs_dilation w)
      \<and> length (window_strides w) \<le> length (rhs_dilation w)
      \<and> length (window_strides w) \<le> length (Window.window_reversal w)
      \<and> length (window_strides w) \<le> length (kernel_spatial_dims dims)
      \<and> (\<forall>i < length (window_strides w).
            0 \<le> sint (kernel_spatial_dims dims ! i) \<and>
            sint (kernel_spatial_dims dims ! i) < int (length (sizes operand0)))
      \<and> length (sizes operand0) < 2 ^ 31
      \<longrightarrow>
        make_window (make_dnums dims) (apply_layout operand0 (operand_0_layout b)) w
          = Some (map (window_entry dims operand0 w) [0..<length (window_strides w)])
        \<and> (length (knob_ids b) \<le> length (knob_values b) \<longrightarrow>
             (\<exists>d. GetConvDescriptor knd operand0 operand1 output scratch dims w b attrs
                     fused side_input leaky = Some d
                \<and> window d
                    = map (window_entry dims operand0 w) [0..<length (window_strides w)])))"
proof (intro conjI impI allI)
  fix ws
  assume "make_window (make_dnums dims) (apply_layout operand0 (operand_0_layout b)) w = Some ws"
  then show "length ws = length (window_strides w)"
    by (rule make_window_length)
next
  assume pre: "length (window_strides w) \<le> length (padding w)
      \<and> length (window_strides w) \<le> length (lhs_dilation w)
      \<and> length (window_strides w) \<le> length (rhs_dilation w)
      \<and> length (window_strides w) \<le> length (Window.window_reversal w)
      \<and> length (window_strides w) \<le> length (kernel_spatial_dims dims)
      \<and> (\<forall>i < length (window_strides w).
            0 \<le> sint (kernel_spatial_dims dims ! i) \<and>
            sint (kernel_spatial_dims dims ! i) < int (length (sizes operand0)))
      \<and> length (sizes operand0) < 2 ^ 31"
  show win: "make_window (make_dnums dims) (apply_layout operand0 (operand_0_layout b)) w
           = Some (map (window_entry dims operand0 w) [0..<length (window_strides w)])"
    unfolding make_window_def
    using pre
    by (subst add_dimensions_map [where f = "window_entry dims operand0 w"])
       (simp_all add: window_dimension_in_bounds)
  assume knobs: "length (knob_ids b) \<le> length (knob_values b)"
  have "\<exists>m. insert_knobs (knob_ids b) (knob_values b) [0..<length (knob_ids b)] Map.empty
            = Some m"
    using knobs by (intro insert_knobs_total) simp
  then obtain m where
    "insert_knobs (knob_ids b) (knob_values b) [0..<length (knob_ids b)] Map.empty = Some m"
    by blast
  then show "\<exists>d. GetConvDescriptor knd operand0 operand1 output scratch dims w b attrs
                     fused side_input leaky = Some d
                \<and> window d
                    = map (window_entry dims operand0 w) [0..<length (window_strides w)]"
    by (simp add: GetConvDescriptor_def win make_algorithm_def Let_def)
qed

theorem make_window_in_bounds_witness:
  "make_window (make_dnums example_dims)
     (apply_layout example_operand0 (operand_0_layout (example_backend_config 0 (- 1))))
     example_window
   = Some [\<lparr>wsize = 5, stride = 1, padding_low = 0, padding_high = 0, base_dilation = 1,
            window_dilation = 1, WindowDimension.window_reversal = False\<rparr>,
           \<lparr>wsize = 7, stride = 1, padding_low = 0, padding_high = 0, base_dilation = 1,
            window_dilation = 1, WindowDimension.window_reversal = False\<rparr>]"
proof -
  have len: "length (window_strides example_window) = Suc (Suc 0)"
    by (simp add: example_defs)
  have pre: "length (window_strides example_window) \<le> length (padding example_window)
      \<and> length (window_strides example_window) \<le> length (lhs_dilation example_window)
      \<and> length (window_strides example_window) \<le> length (rhs_dilation example_window)
      \<and> length (window_strides example_window) \<le> length (Window.window_reversal example_window)
      \<and> length (window_strides example_window) \<le> length (kernel_spatial_dims example_dims)
      \<and> (\<forall>i < length (window_strides example_window).
            0 \<le> sint (kernel_spatial_dims example_dims ! i) \<and>
            sint (kernel_spatial_dims example_dims ! i) < int (length (sizes example_operand0)))
      \<and> length (sizes example_operand0) < 2 ^ 31"
    unfolding len by (simp add: example_defs less_Suc_eq)
  have "make_window (make_dnums example_dims)
     (apply_layout example_operand0 (operand_0_layout (example_backend_config 0 (- 1))))
     example_window
     = Some (map (window_entry example_dims example_operand0 example_window)
          [0..<length (window_strides example_window)])"
    using make_window_in_bounds
      [of example_dims example_operand0 "example_backend_config 0 (- 1)" example_window]
      pre
    by blast
  then show ?thesis
    unfolding len by (simp add: example_defs window_entry_def)
qed

section \<open>Properties of \<open>DoConv\<close>\<close>

lemma trace_log_event [simp]: "trace (log_event e wld) = trace wld @ [e]"
  by (simp add: log_event_def)

lemma runners_log_event [simp]: "runners (log_event e wld) = runners wld"
  by (simp add: log_event_def)

lemma trace_store [simp]: "trace (store st r wld) = trace wld"
  by (simp add: store_def)

lemma deref_log_event [simp]: "deref st (log_event e wld) = deref st wld"
  by (simp add: deref_def)

lemma deref_store [simp]: "deref st (store st r wld) = Some r"
  by (simp add: deref_def store_def)

lemma runners_store_other:
  "ex \<noteq> sub_cache st \<Longrightarrow> runners (store st r wld) ex = runners wld ex"
  by (simp add: store_def)

lemma run_and_check_eq:
  "run_and_check env cfg bs rs s wld =
     (run_status env (trace wld) cfg bs rs s, log_event (EvRunGpuConv cfg bs rs s) wld)"
  by (simp add: run_and_check_def run_status_def Let_def split: sum.splits)

lemma GetOrCreate_cases:
  assumes "GetOrCreate runner (conv_builder env dopt) wld = (st, wld1)"
  obtains (cached) r where "deref runner wld = Some r" "st = OkStatus" "wld1 = wld"
  | (undefined_read) "deref runner wld = None" "dopt = None" "st = Inl UndefinedBehavior" "wld1 = wld"
  | (build_failed) d e where "deref runner wld = None" "dopt = Some d"
      "GetGpuConvConfig env (trace wld) d = Inl e" "st = Inl e"
      "wld1 = log_event (EvGetGpuConvConfig d) wld"
  | (built) d c where "deref runner wld = None" "dopt = Some d"
      "GetGpuConvConfig env (trace wld) d = Inr c" "st = OkStatus"
      "wld1 = store runner \<lparr>config = c\<rparr> (log_event (EvGetGpuConvConfig d) wld)"
  using assms
  by (auto simp: GetOrCreate_def conv_builder_def split: option.splits sum.splits)

lemma autotune_cases:
  assumes "autotune env conv bs rs wld = (res, wld2)"
  obtains (no_cuda) "\<not> GOOGLE_CUDA env" "wld2 = wld"
      "res = Inl (InternalError ''Failed to run runtime autotuner because CUDA is not enabled'')"
  | (dangling) "GOOGLE_CUDA env" "deref conv wld = None" "res = Inl UndefinedBehavior" "wld2 = wld"
  | (search_failed) r e where "GOOGLE_CUDA env" "deref conv wld = Some r"
      "PickBestAlgorithmWithAllocatedBuffer env (trace wld) (config r) bs rs = Inl e"
      "res = Inl e" "wld2 = log_event (EvPickBestAlgorithm (config r) bs rs) wld"
  | (tuned) r best where "GOOGLE_CUDA env" "deref conv wld = Some r"
      "PickBestAlgorithmWithAllocatedBuffer env (trace wld) (config r) bs rs = Inr best"
      "res = Inr (scratch_bytes best)"
      "wld2 = store conv
         (r\<lparr>config := (config r)\<lparr>GpuConvConfig.algorithm :=
            \<lparr>algo = conv_algorithm best, use_tensor_ops = conv_tensor_ops_enabled best\<rparr>\<rparr>\<rparr>)
         (log_event (EvPickBestAlgorithm (config r) bs rs) wld)"
  using assms
  by (auto simp: autotune_def Let_def split: option.splits sum.splits if_splits)

lemma run_conv_cases:
  assumes "run_conv env ro conv bs rs sb n wld = (st, wld')"
  obtains (dangling) "deref conv wld = None" "st = Inl UndefinedBehavior" "wld' = wld"
  | (fits) r where "deref conv wld = Some r" "\<not> bytes sb < n"
      "st = run_status env (trace wld) (config r) bs rs sb"
      "wld' = log_event (EvRunGpuConv (config r) bs rs sb) wld"
  | (allocation_failed) r e where "deref conv wld = Some r" "bytes sb < n"
      "Allocate env (trace wld) (device_ordinal ro) n = Inl e" "st = Inl e"
      "wld' = log_event (EvAllocate (device_ordinal ro) n) wld"
  | (allocated) r ptr where "deref conv wld = Some r" "bytes sb < n"
      "Allocate env (trace wld) (device_ordinal ro) n = Inr ptr"
      "st = run_status env (trace wld @ [EvAllocate (device_ordinal ro) n]) (config r) bs rs
              \<lparr>opaque = ptr, bytes = n\<rparr>"
      "wld' = log_event (EvRunGpuConv (config r) bs rs \<lparr>opaque = ptr, bytes = n\<rparr>)
                (log_event (EvAllocate (device_ordinal ro) n) wld)"
  using assms
  by (auto simp: run_conv_def run_and_check_eq Let_def split: option.splits sum.splits if_splits)

lemma DoConv_cases:
  assumes "DoConv env knd ro runner op0 op1 bias side outputs scratch uid dims w b fgc rsc
             am ss la extra graph wld = (st, wld')"
  obtains (no_plan) e where
      "GetOrCreate runner (conv_builder env (make_descriptor knd op0 op1 outputs scratch dims w
          (pin_algorithm b) fgc rsc
          (map_option (\<lambda>m. \<lparr>FusedConvAttrs.activation_mode = m\<rparr>) am)
          (map_option (\<lambda>s. \<lparr>SideInputAttrs.side_input_scale = s\<rparr>) ss)
          (map_option (\<lambda>a. \<lparr>leaky_relu_alpha = a\<rparr>) la) graph)) wld = (Inl e, wld')"
      "st = Inl e"
  | (no_size) wld1 e where
      "GetOrCreate runner (conv_builder env (make_descriptor knd op0 op1 outputs scratch dims w
          (pin_algorithm b) fgc rsc
          (map_option (\<lambda>m. \<lparr>FusedConvAttrs.activation_mode = m\<rparr>) am)
          (map_option (\<lambda>s. \<lparr>SideInputAttrs.side_input_scale = s\<rparr>) ss)
          (map_option (\<lambda>a. \<lparr>leaky_relu_alpha = a\<rparr>) la) graph)) wld = (OkStatus, wld1)"
      "required_scratch env b runner (operand_buffers env op0 op1 bias side extra)
          (map (GetDeviceAddress env) outputs) (GetDeviceAddressFlat env scratch) wld1
        = (Inl e, wld')"
      "st = Inl e"
  | (run) wld1 wld2 n where
      "GetOrCreate runner (conv_builder env (make_descriptor knd op0 op1 outputs scratch dims w
          (pin_algorithm b) fgc rsc
          (map_option (\<lambda>m. \<lparr>FusedConvAttrs.activation_mode = m\<rparr>) am)
          (map_option (\<lambda>s. \<lparr>SideInputAttrs.side_input_scale = s\<rparr>) ss)
          (map_option (\<lambda>a. \<lparr>leaky_relu_alpha = a\<rparr>) la) graph)) wld = (OkStatus, wld1)"
      "required_scratch env b runner (operand_buffers env op0 op1 bias side extra)
          (map (GetDeviceAddress env) outputs) (GetDeviceAddressFlat env scratch) wld1
        = (Inr n, wld2)"
      "run_conv env ro runner (operand_buffers env op0 op1 bias side extra)
          (map (GetDeviceAddress env) outputs) (GetDeviceAddressFlat env scratch) n wld2
        = (st, wld')"
  using assms
  by (auto simp: DoConv_def Let_def split: prod.splits sum.splits)

lemma GetOrCreate_trace_quiet:
  assumes "GetOrCreate runner (conv_builder env dopt) wld = (st, wld1)"
  shows "\<exists>g. trace wld1 = trace wld @ g
           \<and> (\<forall>e \<in> set g. \<not> is_run e \<and> \<not> is_search e \<and> \<not> is_allocate e)"
  using assms by (cases rule: GetOrCreate_cases) auto

lemma required_scratch_trace_quiet:
  assumes "required_scratch env b conv bs rs sb wld1 = (res, wld2)"
  shows "\<exists>p. trace wld2 = trace wld1 @ p \<and> (\<forall>e \<in> set p. \<not> is_run e \<and> \<not> is_allocate e)"
proof (cases "runtime_autotuning b")
  case True
  with assms have "autotune env conv bs rs wld1 = (res, wld2)"
    by (simp add: required_scratch_def)
  then show ?thesis
    by (cases rule: autotune_cases) auto
next
  case False
  with assms show ?thesis
    by (simp add: required_scratch_def)
qed

lemma run_conv_outcome:
  assumes "run_conv env ro conv bs rs sb n wld2 = (st, wld')"
  shows "(st \<noteq> OkStatus \<and> (\<exists>a. trace wld' = trace wld2 @ a \<and> (\<forall>e \<in> set a. is_allocate e)))
       \<or> (\<exists>a cfg s. trace wld' = trace wld2 @ a @ [EvRunGpuConv cfg bs rs s]
              \<and> (\<forall>e \<in> set a. is_allocate e)
              \<and> st = run_status env (trace wld2 @ a) cfg bs rs s)"
  using assms
proof (cases rule: run_conv_cases)
  case dangling
  then show ?thesis by simp
next
  case (fits r)
  then have "trace wld' = trace wld2 @ [] @ [EvRunGpuConv (config r) bs rs sb]
              \<and> (\<forall>e \<in> set []. is_allocate e)
              \<and> st = run_status env (trace wld2 @ []) (config r) bs rs sb"
    by simp
  then show ?thesis by blast
next
  case (allocation_failed r e)
  then have "st \<noteq> OkStatus \<and> trace wld' = trace wld2 @ [EvAllocate (device_ordinal ro) n]
     \<and> (\<forall>e \<in> set [EvAllocate (device_ordinal ro) n]. is_allocate e)"
    by simp
  then show ?thesis by blast
next
  case (allocated r ptr)
  then have "trace wld' = trace wld2 @ [EvAllocate (device_ordinal ro) n]
                @ [EvRunGpuConv (config r) bs rs \<lparr>opaque = ptr, bytes = n\<rparr>]
              \<and> (\<forall>e \<in> set [EvAllocate (device_ordinal ro) n]. is_allocate e)
              \<and> st = run_status env (trace wld2 @ [EvAllocate (device_ordinal ro) n])
                       (config r) bs rs \<lparr>opaque = ptr, bytes = n\<rparr>"
    by simp
  then show ?thesis by blast
qed

lemma not_run_allocate: "is_allocate e \<Longrightarrow> \<not> is_run e"
  by (cases e) auto

lemma DoConv_outcome:
  assumes "DoConv env knd ro runner op0 op1 bias side outputs scratch uid dims w b fgc rsc
             am ss la extra graph wld = (st, wld')"
  shows "(st \<noteq> OkStatus
          \<and> (\<exists>new. trace wld' = trace wld @ new \<and> (\<forall>e \<in> set new. \<not> is_run e)))
       \<or> (\<exists>pre cfg bs rs s. trace wld' = trace wld @ pre @ [EvRunGpuConv cfg bs rs s]
              \<and> (\<forall>e \<in> set pre. \<not> is_run e)
              \<and> st = run_status env (trace wld @ pre) cfg bs rs s)"
  using assms
proof (cases rule: DoConv_cases)
  case (no_plan e)
  from GetOrCreate_trace_quiet [OF no_plan(1)] obtain g where
    "trace wld' = trace wld @ g" "\<forall>e \<in> set g. \<not> is_run e"
    by blast
  with no_plan(2) show ?thesis by blast
next
  case (no_size wld1 e)
  from GetOrCreate_trace_quiet [OF no_size(1)] obtain g where
    g: "trace wld1 = trace wld @ g" "\<forall>e \<in> set g. \<not> is_run e"
    by blast
  from required_scratch_trace_quiet [OF no_size(2)] obtain p where
    p: "trace wld' = trace wld1 @ p" "\<forall>e \<in> set p. \<not> is_run e"
    by blast
  have "trace wld' = trace wld @ (g @ p)" "\<forall>e \<in> set (g @ p). \<not> is_run e"
    using g p by auto
  with no_size(3) show ?thesis by blast
next
  case (run wld1 wld2 n)
  from GetOrCreate_trace_quiet [OF run(1)] obtain g where
    g: "trace wld1 = trace wld @ g" "\<forall>e \<in> set g. \<not> is_run e"
    by blast
  from required_scratch_trace_quiet [OF run(2)] obtain p where
    p: "trace wld2 = trace wld1 @ p" "\<forall>e \<in> set p. \<not> is_run e"
    by blast
  from run_conv_outcome [OF run(3)] show ?thesis
  proof (elim disjE exE conjE)
    fix a
    assume "st \<noteq> OkStatus" "trace wld' = trace wld2 @ a" "\<forall>e \<in> set a. is_allocate e"
    then have "trace wld' = trace wld @ (g @ p @ a)" "\<forall>e \<in> set (g @ p @ a). \<not> is_run e"
      using g p by (auto dest: not_run_allocate)
    with \<open>st \<noteq> OkStatus\<close> show ?thesis by blast
  next
    fix a cfg s
    assume "trace wld' = trace wld2 @ a @ [EvRunGpuConv cfg
               (operand_buffers env op0 op1 bias side extra)
               (map (GetDeviceAddress env) outputs) s]"
      "\<forall>e \<in> set a. is_allocate e"
      "st = run_status env (trace wld2 @ a) cfg (operand_buffers env op0 op1 bias side extra)
               (map (GetDeviceAddress env) outputs) s"
    then have "trace wld' = trace wld @ (g @ p @ a) @ [EvRunGpuConv cfg
               (operand_buffers env op0 op1 bias side extra)
               (map (GetDeviceAddress env) outputs) s]"
      "\<forall>e \<in> set (g @ p @ a). \<not> is_run e"
      "st = run_status env (trace wld @ (g @ p @ a)) cfg
               (operand_buffers env op0 op1 bias side extra)
               (map (GetDeviceAddress env) outputs) s"
      using g p by (auto dest: not_run_allocate)
    then show ?thesis by blast
  qed
qed

lemma run_status_ok:
  "run_status env tr cfg bs rs s = OkStatus \<longleftrightarrow>
     RunGpuConv env tr cfg bs rs s = OkStatus \<and> stream_ok env (tr @ [EvRunGpuConv cfg bs rs s])"
  by (auto simp: run_status_def split: sum.splits)

text \<open>
  Claim C7. An invocation returns the ok status exactly when it issued the device
  primitive as its last external call, the primitive reported success, and the stream
  was healthy afterwards. So it fails when the primitive reported an error, and it fails
  when the stream check after a successful primitive fails.
\<close>

theorem DoConv_status:
  assumes "DoConv env knd ro runner op0 op1 bias side outputs scratch uid dims w b fgc rsc
     am ss la extra graph wld = (st, wld')"
  shows "(st = OkStatus) =
     (\<exists>pre cfg bs rs s.
        trace wld' = trace wld @ pre @ [EvRunGpuConv cfg bs rs s]
        \<and> RunGpuConv env (trace wld @ pre) cfg bs rs s = OkStatus
        \<and> stream_ok env (trace wld'))"
  using DoConv_outcome [OF assms]
proof (elim disjE exE conjE)
  fix new
  assume fail: "st \<noteq> OkStatus" and new: "trace wld' = trace wld @ new"
    and none: "\<forall>e \<in> set new. \<not> is_run e"
  have "\<not> (\<exists>pre cfg bs rs s. trace wld' = trace wld @ pre @ [EvRunGpuConv cfg bs rs s])"
  proof
    assume "\<exists>pre cfg bs rs s. trace wld' = trace wld @ pre @ [EvRunGpuConv cfg bs rs s]"
    then obtain pre cfg bs rs s where "new = pre @ [EvRunGpuConv cfg bs rs s]"
      using new by auto
    with none show False by simp
  qed
  with fail show ?thesis by blast
next
  fix pre cfg bs rs s
  assume tr: "trace wld' = trace wld @ pre @ [EvRunGpuConv cfg bs rs s]"
    and st: "st = run_status env (trace wld @ pre) cfg bs rs s"
  show ?thesis
  proof
    assume "st = OkStatus"
    with st have "run_status env (trace wld @ pre) cfg bs rs s = OkStatus"
      by simp
    then have "RunGpuConv env (trace wld @ pre) cfg bs rs s = OkStatus"
      and "stream_ok env (trace wld')"
      using tr by (simp_all add: run_status_ok)
    with tr show "\<exists>pre cfg bs rs s.
        trace wld' = trace wld @ pre @ [EvRunGpuConv cfg bs rs s]
        \<and> RunGpuConv env (trace wld @ pre) cfg bs rs s = OkStatus
        \<and> stream_ok env (trace wld')"
      by blast
  next
    assume "\<exists>pre cfg bs rs s.
        trace wld' = trace wld @ pre @ [EvRunGpuConv cfg bs rs s]
        \<and> RunGpuConv env (trace wld @ pre) cfg bs rs s = OkStatus
        \<and> stream_ok env (trace wld')"
    then obtain pre' cfg' bs' rs' s' where
      a: "trace wld' = trace wld @ pre' @ [EvRunGpuConv cfg' bs' rs' s']"
      and b: "RunGpuConv env (trace wld @ pre') cfg' bs' rs' s' = OkStatus"
      and c: "stream_ok env (trace wld')"
      by blast
    from a tr have "pre' = pre" "cfg' = cfg" "bs' = bs" "rs' = rs" "s' = s"
      by auto
    with b c tr st show "st = OkStatus"
      by (simp add: run_status_ok)
  qed
qed

lemma example_pin: "pin_algorithm (example_backend_config (- 1) ws) = example_backend_config 0 ws"
  by (simp add: pin_algorithm_def example_backend_config_def)

lemma example_make_descriptor:
  "make_descriptor kForward example_operand0 example_operand1 [example_output] example_scratch
     example_dims example_window (pin_algorithm (example_backend_config (- 1) ws)) 1 1
     None None None None \<noteq> None"
  using example_GetConvDescriptor [of 0 ws]
  by (auto simp: make_descriptor_def example_pin span_at_def example_attrs_def)

lemmas DoConv_defs =
  DoConv_def GetOrCreate_def conv_builder_def deref_def store_def log_event_def
  required_scratch_def runtime_autotuning_def autotune_def run_conv_def run_and_check_def
  operand_buffers_def Let_def

lemma example_call_status: "fst (example_call True (- 1) example_world) = OkStatus"
  using example_make_descriptor [of "- 1"]
  by (auto simp: example_call_def DoConv_defs example_env_def example_world_def
      example_runner_def example_scratch_def example_run_options_def example_backend_config_def)

lemma example_call_trace: 
  "map is_search (trace (snd (example_call True (- 1) example_world))) = [False, True, False, False]
  \<and> map is_allocate (trace (snd (example_call True (- 1) example_world))) = [False, False, True, False]
  \<and> map is_run (trace (snd (example_call True (- 1) example_world))) = [False, False, False, True]"
  using example_make_descriptor [of "- 1"]
  by (auto simp: example_call_def DoConv_defs example_env_def example_world_def
      example_runner_def example_scratch_def example_run_options_def example_backend_config_def)

theorem DoConv_status_witness:
  "fst (example_call True (- 1) example_world) = OkStatus
   \<and> (\<exists>pre cfg bs rs s.
        trace (snd (example_call True (- 1) example_world))
          = trace example_world @ pre @ [EvRunGpuConv cfg bs rs s]
        \<and> RunGpuConv (example_env True) (trace example_world @ pre) cfg bs rs s = OkStatus
        \<and> stream_ok (example_env True) (trace (snd (example_call True (- 1) example_world))))"
proof -
  have call: "DoConv (example_env True) kForward example_run_options example_runner
       example_operand0 example_operand1 None None [example_output] example_scratch 42
       example_dims example_window (example_backend_config (- 1) (- 1)) 1 1
       None None None [] None example_world
     = (fst (example_call True (- 1) example_world),
        snd (example_call True (- 1) example_world))"
    by (simp add: example_call_def)
  from DoConv_status [OF call] example_call_status show ?thesis
    by simp
qed

lemma runners_run_conv:
  assumes "run_conv env ro conv bs rs sb n wld2 = (st, wld')"
  shows "runners wld' = runners wld2"
  using assms by (cases rule: run_conv_cases) auto

lemma deref_cong: "runners wld' = runners wld \<Longrightarrow> deref st wld' = deref st wld"
  by (simp add: deref_def)

lemma GetOrCreate_deref:
  assumes "GetOrCreate runner (conv_builder env dopt) wld = (st, wld1)"
  shows "(st = OkStatus) = (deref runner wld1 \<noteq> None)"
  using assms by (cases rule: GetOrCreate_cases) auto

lemma required_scratch_deref:
  assumes "required_scratch env b conv bs rs sb wld1 = (res, wld2)"
  shows "(deref conv wld2 \<noteq> None) = (deref conv wld1 \<noteq> None)"
proof (cases "runtime_autotuning b")
  case True
  with assms have "autotune env conv bs rs wld1 = (res, wld2)"
    by (simp add: required_scratch_def)
  then show ?thesis
    by (cases rule: autotune_cases) auto
next
  case False
  with assms show ?thesis
    by (simp add: required_scratch_def)
qed

lemma DoConv_deref:
  assumes "DoConv env knd ro runner op0 op1 bias side outputs scratch uid dims w b fgc rsc
             am ss la extra graph wld = (st, wld')"
    and "deref runner wld \<noteq> None"
  shows "deref runner wld' \<noteq> None"
  using assms(1)
proof (cases rule: DoConv_cases)
  case (no_plan e)
  then show ?thesis
    using GetOrCreate_deref [OF no_plan(1)] assms(2)
    by (cases rule: GetOrCreate_cases [OF no_plan(1)]) auto
next
  case (no_size wld1 e)
  then show ?thesis
    using GetOrCreate_deref [OF no_size(1)] required_scratch_deref [OF no_size(2)] by simp
next
  case (run wld1 wld2 n)
  then show ?thesis
    using GetOrCreate_deref [OF run(1)] required_scratch_deref [OF run(2)]
      deref_cong [OF runners_run_conv [OF run(3)], of runner]
    by simp
qed

text \<open>
  Claim C6. When the backend-config algorithm is the sentinel and the build has no
  search capability, the invocation fails: it issues neither the search nor the device
  primitive, and once the plan is there the status is the internal error of line 439.
\<close>

theorem DoConv_autotuning_unavailable:
  assumes "DoConv env knd ro runner op0 op1 bias side outputs scratch uid dims w b fgc rsc
             am ss la extra graph wld = (st, wld')"
    and "ConvBackendConfig.algorithm b = - 1"
    and "\<not> GOOGLE_CUDA env"
  shows "st \<noteq> OkStatus
    \<and> (\<exists>new. trace wld' = trace wld @ new
          \<and> (\<forall>e \<in> set new. \<not> is_run e \<and> \<not> is_search e \<and> \<not> is_allocate e))
    \<and> (deref runner wld' \<noteq> None \<longrightarrow>
          st = Inl (InternalError
                 ''Failed to run runtime autotuner because CUDA is not enabled''))"
proof -
  have auto_b: "runtime_autotuning b"
    using assms(2) by (simp add: runtime_autotuning_def)
  have no_cuda: "autotune env runner bs rs wld1 =
      (Inl (InternalError ''Failed to run runtime autotuner because CUDA is not enabled''),
       wld1)"
    for bs rs wld1
    using assms(3) by (simp add: autotune_def)
  from assms(1) show ?thesis
  proof (cases rule: DoConv_cases)
    case (no_plan e)
    from GetOrCreate_trace_quiet [OF no_plan(1)] GetOrCreate_deref [OF no_plan(1)] no_plan(2)
    show ?thesis by auto
  next
    case (no_size wld1 e)
    from no_size(2) auto_b have "wld' = wld1"
      and "e = InternalError ''Failed to run runtime autotuner because CUDA is not enabled''"
      by (simp_all add: required_scratch_def no_cuda)
    with GetOrCreate_trace_quiet [OF no_size(1)] no_size(3)
    show ?thesis by auto
  next
    case (run wld1 wld2 n)
    from run(2) auto_b have False
      by (simp add: required_scratch_def no_cuda)
    then show ?thesis ..
  qed
qed

theorem DoConv_autotuning_unavailable_witness:
  "fst (example_call False (- 1) example_world)
     = Inl (InternalError ''Failed to run runtime autotuner because CUDA is not enabled'')
   \<and> fst (example_call False (- 1) example_world) \<noteq> OkStatus
   \<and> filter is_run (trace (snd (example_call False (- 1) example_world))) = []"
proof -
  have cached: "deref example_runner (snd (example_call False (- 1) example_world)) \<noteq> None"
    using example_make_descriptor [of "- 1"]
    by (auto simp: example_call_def DoConv_defs example_env_def example_world_def
      example_runner_def example_scratch_def example_run_options_def example_backend_config_def)
  have alg: "ConvBackendConfig.algorithm (example_backend_config (- 1) (- 1)) = - 1"
    by (simp add: example_backend_config_def)
  have cuda: "\<not> GOOGLE_CUDA (example_env False)"
    by (simp add: example_env_def)
  have call: "DoConv (example_env False) kForward example_run_options example_runner
       example_operand0 example_operand1 None None [example_output] example_scratch 42
       example_dims example_window (example_backend_config (- 1) (- 1)) 1 1
       None None None [] None example_world
     = (fst (example_call False (- 1) example_world), snd (example_call False (- 1) example_world))"
    by (simp add: example_call_def)
  from DoConv_autotuning_unavailable [OF call alg cuda] cached
  show ?thesis
    by (auto simp: example_world_def filter_empty_conv)
qed

lemma searches_append [simp]: "searches (xs @ ys) = searches xs + searches ys"
  by (simp add: searches_def)

lemma searches_Nil [simp]: "searches [] = 0"
  by (simp add: searches_def)

lemma searches_Cons [simp]: "searches (e # tr) = (if is_search e then 1 else 0) + searches tr"
  by (simp add: searches_def)

lemma searches_pos: "(\<exists>e \<in> set tr. is_search e) = (0 < searches tr)"
  by (induction tr) auto

lemma make_descriptor_algo_id:
  assumes "make_descriptor knd op0 op1 outputs scratch dims w b fgc rsc fa sa la graph = Some d"
  shows "algo_id (CudnnConvBackendConfig.algorithm (backend_config d))
           = ConvBackendConfig.algorithm b"
  using assms
  by (auto simp: make_descriptor_def GetConvDescriptor_def Let_def set_serialized_graph_def
      make_algorithm_algo_id split: Option.bind_splits option.splits)

lemma pin_algorithm_value:
  "ConvBackendConfig.algorithm (pin_algorithm b)
     = (if ConvBackendConfig.algorithm b = - 1 then 0 else ConvBackendConfig.algorithm b)"
  by (simp add: pin_algorithm_def)

lemma GetOrCreate_events:
  assumes "GetOrCreate runner (conv_builder env dopt) wld = (st, wld1)"
  shows "\<exists>g. trace wld1 = trace wld @ g \<and> searches g = 0
           \<and> (\<forall>d. EvGetGpuConvConfig d \<in> set g \<longrightarrow> dopt = Some d)"
  using assms by (cases rule: GetOrCreate_cases) auto

lemma required_scratch_events:
  assumes "required_scratch env b conv bs rs sb wld1 = (res, wld2)"
  shows "\<exists>p. trace wld2 = trace wld1 @ p
           \<and> searches p = (if runtime_autotuning b \<and> GOOGLE_CUDA env \<and> deref conv wld1 \<noteq> None
                            then 1 else 0)
           \<and> (\<forall>d. EvGetGpuConvConfig d \<notin> set p)"
proof (cases "runtime_autotuning b")
  case True
  with assms have "autotune env conv bs rs wld1 = (res, wld2)"
    by (simp add: required_scratch_def)
  then show ?thesis
    using True by (cases rule: autotune_cases) auto
next
  case False
  with assms show ?thesis
    by (simp add: required_scratch_def)
qed

lemma run_conv_events:
  assumes "run_conv env ro conv bs rs sb n wld2 = (st, wld')"
  shows "\<exists>r. trace wld' = trace wld2 @ r \<and> searches r = 0
           \<and> (\<forall>d. EvGetGpuConvConfig d \<notin> set r)"
  using assms by (cases rule: run_conv_cases) auto

lemma DoConv_events:
  assumes "DoConv env knd ro runner op0 op1 bias side outputs scratch uid dims w b fgc rsc
             am ss la extra graph wld = (st, wld')"
  shows "\<exists>new. trace wld' = trace wld @ new
           \<and> searches new = (if runtime_autotuning b \<and> GOOGLE_CUDA env \<and> deref runner wld' \<noteq> None
                              then 1 else 0)
           \<and> (\<forall>d. EvGetGpuConvConfig d \<in> set new \<longrightarrow>
                  algo_id (CudnnConvBackendConfig.algorithm (backend_config d))
                    = ConvBackendConfig.algorithm (pin_algorithm b))"
  using assms
proof (cases rule: DoConv_cases)
  case (no_plan e)
  from GetOrCreate_events [OF no_plan(1)] obtain g where
    g: "trace wld' = trace wld @ g" "searches g = 0"
      "\<forall>d. EvGetGpuConvConfig d \<in> set g \<longrightarrow>
          algo_id (CudnnConvBackendConfig.algorithm (backend_config d))
            = ConvBackendConfig.algorithm (pin_algorithm b)"
    by (auto dest: make_descriptor_algo_id)
  moreover have "deref runner wld' = None"
    using GetOrCreate_deref [OF no_plan(1)] by simp
  ultimately show ?thesis by auto
next
  case (no_size wld1 e)
  from GetOrCreate_events [OF no_size(1)] obtain g where
    g: "trace wld1 = trace wld @ g" "searches g = 0"
      "\<forall>d. EvGetGpuConvConfig d \<in> set g \<longrightarrow>
          algo_id (CudnnConvBackendConfig.algorithm (backend_config d))
            = ConvBackendConfig.algorithm (pin_algorithm b)"
    by (auto dest: make_descriptor_algo_id)
  from required_scratch_events [OF no_size(2)] obtain p where
    p: "trace wld' = trace wld1 @ p"
      "searches p = (if runtime_autotuning b \<and> GOOGLE_CUDA env \<and> deref runner wld1 \<noteq> None
                            then 1 else 0)"
      "\<forall>d. EvGetGpuConvConfig d \<notin> set p"
    by blast
  have "deref runner wld1 \<noteq> None" "deref runner wld' \<noteq> None"
    using GetOrCreate_deref [OF no_size(1)] required_scratch_deref [OF no_size(2)] by simp_all
  with g p have "trace wld' = trace wld @ (g @ p)
     \<and> searches (g @ p) = (if runtime_autotuning b \<and> GOOGLE_CUDA env \<and> deref runner wld' \<noteq> None
                              then 1 else 0)
     \<and> (\<forall>d. EvGetGpuConvConfig d \<in> set (g @ p) \<longrightarrow>
                  algo_id (CudnnConvBackendConfig.algorithm (backend_config d))
                    = ConvBackendConfig.algorithm (pin_algorithm b))"
    by auto
  then show ?thesis by blast
next
  case (run wld1 wld2 n)
  from GetOrCreate_events [OF run(1)] obtain g where
    g: "trace wld1 = trace wld @ g" "searches g = 0"
      "\<forall>d. EvGetGpuConvConfig d \<in> set g \<longrightarrow>
          algo_id (CudnnConvBackendConfig.algorithm (backend_config d))
            = ConvBackendConfig.algorithm (pin_algorithm b)"
    by (auto dest: make_descriptor_algo_id)
  from required_scratch_events [OF run(2)] obtain p where
    p: "trace wld2 = trace wld1 @ p"
      "searches p = (if runtime_autotuning b \<and> GOOGLE_CUDA env \<and> deref runner wld1 \<noteq> None
                            then 1 else 0)"
      "\<forall>d. EvGetGpuConvConfig d \<notin> set p"
    by blast
  from run_conv_events [OF run(3)] obtain r where
    r: "trace wld' = trace wld2 @ r" "searches r = 0" "\<forall>d. EvGetGpuConvConfig d \<notin> set r"
    by blast
  have "deref runner wld1 \<noteq> None" "deref runner wld' \<noteq> None"
    using GetOrCreate_deref [OF run(1)] required_scratch_deref [OF run(2)]
      deref_cong [OF runners_run_conv [OF run(3)], of runner]
    by simp_all
  with g p r have "trace wld' = trace wld @ (g @ p @ r)
     \<and> searches (g @ p @ r) = (if runtime_autotuning b \<and> GOOGLE_CUDA env \<and> deref runner wld' \<noteq> None
                              then 1 else 0)
     \<and> (\<forall>d. EvGetGpuConvConfig d \<in> set (g @ p @ r) \<longrightarrow>
                  algo_id (CudnnConvBackendConfig.algorithm (backend_config d))
                    = ConvBackendConfig.algorithm (pin_algorithm b))"
    by auto
  then show ?thesis by blast
qed

text \<open>
  Claim C3. Autotuning is triggered (\<open>runtime_autotuning\<close>) exactly when the
  backend-config algorithm is the sentinel \<open>-1\<close>; the algorithm handed to the descriptor
  is then pinned to \<open>0\<close>, and every descriptor that the invocation compiles carries the
  pinned value, never the sentinel. With an explicit algorithm the search is never
  invoked; the search is invoked exactly when autotuning was triggered, the build has the
  search capability and the plan was obtained.
\<close>

theorem DoConv_autotuning_trigger:
  assumes "DoConv env knd ro runner op0 op1 bias side outputs scratch uid dims w b fgc rsc
             am ss la extra graph wld = (st, wld')"
  shows "runtime_autotuning b = (ConvBackendConfig.algorithm b = - 1)
    \<and> ConvBackendConfig.algorithm (pin_algorithm b)
        = (if ConvBackendConfig.algorithm b = - 1 then 0 else ConvBackendConfig.algorithm b)
    \<and> (\<exists>new. trace wld' = trace wld @ new
          \<and> (\<forall>d. EvGetGpuConvConfig d \<in> set new \<longrightarrow>
                algo_id (CudnnConvBackendConfig.algorithm (backend_config d))
                  = (if ConvBackendConfig.algorithm b = - 1 then 0
                     else ConvBackendConfig.algorithm b)
                \<and> algo_id (CudnnConvBackendConfig.algorithm (backend_config d)) \<noteq> - 1)
          \<and> (ConvBackendConfig.algorithm b \<noteq> - 1 \<longrightarrow> (\<forall>e \<in> set new. \<not> is_search e))
          \<and> ((\<exists>e \<in> set new. is_search e)
               = (ConvBackendConfig.algorithm b = - 1 \<and> GOOGLE_CUDA env
                  \<and> deref runner wld' \<noteq> None)))"
proof -
  from DoConv_events [OF assms] obtain new where
    new: "trace wld' = trace wld @ new"
      "searches new = (if runtime_autotuning b \<and> GOOGLE_CUDA env \<and> deref runner wld' \<noteq> None
                              then 1 else 0)"
      "\<forall>d. EvGetGpuConvConfig d \<in> set new \<longrightarrow>
                  algo_id (CudnnConvBackendConfig.algorithm (backend_config d))
                    = ConvBackendConfig.algorithm (pin_algorithm b)"
    by blast
  have found: "(\<exists>e \<in> set new. is_search e)
      = (ConvBackendConfig.algorithm b = - 1 \<and> GOOGLE_CUDA env \<and> deref runner wld' \<noteq> None)"
    using new(2) by (simp add: searches_pos runtime_autotuning_def)
  have "trace wld' = trace wld @ new
          \<and> (\<forall>d. EvGetGpuConvConfig d \<in> set new \<longrightarrow>
                algo_id (CudnnConvBackendConfig.algorithm (backend_config d))
                  = (if ConvBackendConfig.algorithm b = - 1 then 0
                     else ConvBackendConfig.algorithm b)
                \<and> algo_id (CudnnConvBackendConfig.algorithm (backend_config d)) \<noteq> - 1)
          \<and> (ConvBackendConfig.algorithm b \<noteq> - 1 \<longrightarrow> (\<forall>e \<in> set new. \<not> is_search e))
          \<and> ((\<exists>e \<in> set new. is_search e)
               = (ConvBackendConfig.algorithm b = - 1 \<and> GOOGLE_CUDA env
                  \<and> deref runner wld' \<noteq> None))"
    using new(1,3) found by (auto simp: pin_algorithm_value)
  then show ?thesis
    by (auto simp: runtime_autotuning_def pin_algorithm_value)
qed

lemma searches_map: "searches tr = length (filter (\<lambda>b. b) (map is_search tr))"
  by (simp add: searches_def filter_map comp_def)

theorem DoConv_autotuning_trigger_witness:
  "runtime_autotuning (example_backend_config (- 1) (- 1))
   \<and> \<not> runtime_autotuning (example_backend_config 3 (- 1))
   \<and> ConvBackendConfig.algorithm (pin_algorithm (example_backend_config (- 1) (- 1))) = 0
   \<and> searches (trace (snd (example_call True (- 1) example_world))) = 1
   \<and> searches (trace (snd (example_call True 3 example_world))) = 0"
proof -
  have call: "DoConv (example_env True) kForward example_run_options example_runner
       example_operand0 example_operand1 None None [example_output] example_scratch 42
       example_dims example_window (example_backend_config alg (- 1)) 1 1
       None None None [] None example_world
     = (fst (example_call True alg example_world), snd (example_call True alg example_world))"
    for alg
    by (simp add: example_call_def)
  have alg: "ConvBackendConfig.algorithm (example_backend_config a (- 1)) = a" for a
    by (simp add: example_backend_config_def)
  have s1: "searches (trace (snd (example_call True (- 1) example_world))) = 1"
    using example_call_trace by (simp add: searches_map)
  obtain new where new: "trace (snd (example_call True 3 example_world)) = trace example_world @ new"
    "\<forall>e \<in> set new. \<not> is_search e"
    using DoConv_autotuning_trigger [OF call [of 3]] by (auto simp: alg)
  then have s0: "searches (trace (snd (example_call True 3 example_world))) = 0"
    by (simp add: example_world_def searches_def)
  from DoConv_autotuning_trigger [OF call [of "- 1"]] s1 s0
    DoConv_autotuning_trigger [OF call [of 3]]
  show ?thesis
    by (simp add: alg)
qed

lemma GetOrCreate_others:
  assumes "GetOrCreate runner (conv_builder env dopt) wld = (st, wld1)"
    and "ex \<noteq> sub_cache runner"
  shows "runners wld1 ex = runners wld ex"
  using assms by (cases rule: GetOrCreate_cases) (auto simp: runners_store_other)

lemma required_scratch_others:
  assumes "required_scratch env b conv bs rs sb wld1 = (res, wld2)"
    and "ex \<noteq> sub_cache conv"
  shows "runners wld2 ex = runners wld1 ex"
proof (cases "runtime_autotuning b")
  case True
  with assms have "autotune env conv bs rs wld1 = (res, wld2)"
    by (simp add: required_scratch_def)
  then show ?thesis
    using assms(2) by (cases rule: autotune_cases) (auto simp: runners_store_other)
next
  case False
  with assms show ?thesis
    by (simp add: required_scratch_def)
qed

lemma DoConv_others:
  assumes "DoConv env knd ro runner op0 op1 bias side outputs scratch uid dims w b fgc rsc
             am ss la extra graph wld = (st, wld')"
    and "ex \<noteq> sub_cache runner"
  shows "runners wld' ex = runners wld ex"
  using assms(1)
proof (cases rule: DoConv_cases)
  case (no_plan e)
  then show ?thesis
    using GetOrCreate_others [OF no_plan(1) assms(2)] by simp
next
  case (no_size wld1 e)
  then show ?thesis
    using GetOrCreate_others [OF no_size(1) assms(2)]
      required_scratch_others [OF no_size(2) assms(2)] by simp
next
  case (run wld1 wld2 n)
  then show ?thesis
    using GetOrCreate_others [OF run(1) assms(2)]
      required_scratch_others [OF run(2) assms(2)] runners_run_conv [OF run(3)] by simp
qed

text \<open>
  Claim C8. For two distinct stream executors the sub-caches that \<open>ConvRunners\<close> returns
  are distinct, asking for one leaves the other as it was, and a plan stored through
  one, in particular by an invocation of \<open>DoConv\<close> that builds or autotunes it, is
  never seen through the other, whatever the call-site ids.
\<close>

theorem ConvRunners_isolated:
  assumes "executor1 \<noteq> executor2"
  shows "fst (ConvRunners_call executor1 wld) \<noteq> fst (ConvRunners_call executor2 wld)
    \<and> runners (snd (ConvRunners_call executor1 wld)) executor2 = runners wld executor2
    \<and> deref \<lparr>sub_cache = fst (ConvRunners_call executor2 wld), state_id = uid2\<rparr>
          (store \<lparr>sub_cache = fst (ConvRunners_call executor1 wld), state_id = uid1\<rparr> r wld)
        = deref \<lparr>sub_cache = fst (ConvRunners_call executor2 wld), state_id = uid2\<rparr> wld
    \<and> (sub_cache runner = fst (ConvRunners_call executor1 wld) \<longrightarrow>
         deref \<lparr>sub_cache = fst (ConvRunners_call executor2 wld), state_id = uid2\<rparr>
            (snd (DoConv env knd ro runner op0 op1 bias side outputs scratch uid dims w b fgc rsc
                    am ss la extra graph wld))
          = deref \<lparr>sub_cache = fst (ConvRunners_call executor2 wld), state_id = uid2\<rparr> wld)"
proof -
  have others: "runners (snd (DoConv env knd ro runner op0 op1 bias side outputs scratch uid
       dims w b fgc rsc am ss la extra graph wld)) executor2 = runners wld executor2"
    if "sub_cache runner = executor1"
    using DoConv_others [OF surjective_pairing, of executor2 runner] that assms by simp
  show ?thesis
    using assms others
    by (auto simp: ConvRunners_call_def deref_def store_def split: option.splits)
qed

theorem ConvRunners_isolated_witness:
  "fst (ConvRunners_call 1 example_world) \<noteq> fst (ConvRunners_call 2 example_world)
   \<and> deref example_runner (snd (example_call True (- 1) example_world)) \<noteq> None
   \<and> deref \<lparr>sub_cache = fst (ConvRunners_call 2 example_world), state_id = 42\<rparr>
        (snd (example_call True (- 1) example_world)) = None"
proof -
  have cached: "deref example_runner (snd (example_call True (- 1) example_world)) \<noteq> None"
    using example_make_descriptor [of "- 1"]
    by (auto simp: example_call_def DoConv_defs example_env_def example_world_def
      example_runner_def example_scratch_def example_run_options_def example_backend_config_def)
  have ne: "(1::StreamExecutor) \<noteq> 2"
    by simp
  have sub: "sub_cache example_runner = fst (ConvRunners_call 1 example_world)"
    by (simp add: example_runner_def ConvRunners_call_def)
  have empty: "deref \<lparr>sub_cache = fst (ConvRunners_call 2 example_world), state_id = 42\<rparr>
      example_world = None"
    by (simp add: deref_def example_world_def ConvRunners_call_def)
  from ConvRunners_isolated [OF ne, of example_world 42 42 undefined example_runner
      "example_env True" kForward example_run_options example_operand0 example_operand1
      None None "[example_output]" example_scratch 42 example_dims example_window
      "example_backend_config (- 1) (- 1)" 1 1 None None None "[]" None]
    sub empty cached
  show ?thesis
    by (simp add: example_call_def)
qed

lemma GetOrCreate_builds:
  assumes "deref runner wld = None" and "dopt = Some d"
    and "GetGpuConvConfig env (trace wld) d = Inr c"
  shows "GetOrCreate runner (conv_builder env dopt) wld
    = (OkStatus, store runner \<lparr>config = c\<rparr> (log_event (EvGetGpuConvConfig d) wld))"
  using assms by (simp add: GetOrCreate_def conv_builder_def)

lemma DoConv_plan_obtained:
  assumes "DoConv env knd ro runner op0 op1 bias side outputs scratch uid dims w b fgc rsc
             am ss la extra graph wld = (st, wld')"
    and "deref runner wld \<noteq> None
       \<or> (\<exists>d c. make_descriptor knd op0 op1 outputs scratch dims w (pin_algorithm b) fgc rsc
          (map_option (\<lambda>m. \<lparr>FusedConvAttrs.activation_mode = m\<rparr>) am)
          (map_option (\<lambda>s. \<lparr>SideInputAttrs.side_input_scale = s\<rparr>) ss)
          (map_option (\<lambda>a. \<lparr>leaky_relu_alpha = a\<rparr>) la) graph = Some d
           \<and> GetGpuConvConfig env (trace wld) d = Inr c)"
  shows "deref runner wld' \<noteq> None"
proof (cases "deref runner wld")
  case (Some r)
  then show ?thesis
    using DoConv_deref [OF assms(1)] by simp
next
  case None
  with assms(2) obtain d c where
    d: "make_descriptor knd op0 op1 outputs scratch dims w (pin_algorithm b) fgc rsc
          (map_option (\<lambda>m. \<lparr>FusedConvAttrs.activation_mode = m\<rparr>) am)
          (map_option (\<lambda>s. \<lparr>SideInputAttrs.side_input_scale = s\<rparr>) ss)
          (map_option (\<lambda>a. \<lparr>leaky_relu_alpha = a\<rparr>) la) graph = Some d"
    and c: "GetGpuConvConfig env (trace wld) d = Inr c"
    by blast
  note built = GetOrCreate_builds [OF None d c]
  from assms(1) show ?thesis
  proof (cases rule: DoConv_cases)
    case (no_plan e)
    with built show ?thesis by simp
  next
    case (no_size wld1 e)
    then show ?thesis
      using GetOrCreate_deref [OF no_size(1)] required_scratch_deref [OF no_size(2)] by simp
  next
    case (run wld1 wld2 n)
    then show ?thesis
      using GetOrCreate_deref [OF run(1)] required_scratch_deref [OF run(2)]
        deref_cong [OF runners_run_conv [OF run(3)], of runner]
      by simp
  qed
qed

lemma DoConv_searches:
  assumes "DoConv env knd ro runner op0 op1 bias side outputs scratch uid dims w b fgc rsc
             am ss la extra graph wld = (st, wld')"
  shows "searches (trace wld')
    = searches (trace wld)
      + (if ConvBackendConfig.algorithm b = - 1 \<and> GOOGLE_CUDA env \<and> deref runner wld' \<noteq> None
         then 1 else 0)"
  using DoConv_events [OF assms] by (auto simp: runtime_autotuning_def)

lemma invocations_searches:
  assumes "ConvBackendConfig.algorithm b = - 1" and "GOOGLE_CUDA env"
    and "deref runner wld \<noteq> None
       \<or> (\<exists>d c. make_descriptor knd op0 op1 outputs scratch dims w (pin_algorithm b) fgc rsc
          (map_option (\<lambda>m. \<lparr>FusedConvAttrs.activation_mode = m\<rparr>) am)
          (map_option (\<lambda>s. \<lparr>SideInputAttrs.side_input_scale = s\<rparr>) ss)
          (map_option (\<lambda>a. \<lparr>leaky_relu_alpha = a\<rparr>) la) graph = Some d
           \<and> GetGpuConvConfig env (trace wld) d = Inr c)"
  shows "searches (trace (invocations n
           (DoConv env knd ro runner op0 op1 bias side outputs scratch uid dims w b fgc rsc
              am ss la extra graph) wld))
         = searches (trace wld) + n"
  using assms(3)
proof (induction n arbitrary: wld)
  case 0
  show ?case by simp
next
  case (Suc n)
  let ?call = "DoConv env knd ro runner op0 op1 bias side outputs scratch uid dims w b fgc rsc
              am ss la extra graph"
  have step: "?call wld = (fst (?call wld), snd (?call wld))"
    by simp
  have cached: "deref runner (snd (?call wld)) \<noteq> None"
    using DoConv_plan_obtained [OF step Suc.prems] .
  have "searches (trace (snd (?call wld))) = searches (trace wld) + 1"
    using DoConv_searches [OF step] cached assms(1,2) by simp
  moreover have "searches (trace (invocations n ?call (snd (?call wld))))
      = searches (trace (snd (?call wld))) + n"
    using cached by (intro Suc.IH) simp
  ultimately show ?case by simp
qed

text \<open>
  Claim C2, as amended. In a build with the search capability, once the plan of a call
  site whose backend-config algorithm is the sentinel is cached or can be built, every
  invocation runs the search: \<open>n\<close> invocations run it \<open>n\<close> times. The flag of line 372
  is computed from the attribute of the call, not from the cached plan.
\<close>

theorem invocations_search_every_time:
  assumes "ConvBackendConfig.algorithm b = - 1" and "GOOGLE_CUDA env"
    and "deref runner wld \<noteq> None
       \<or> (\<exists>d c. make_descriptor knd op0 op1 outputs scratch dims w (pin_algorithm b) fgc rsc
          (map_option (\<lambda>m. \<lparr>FusedConvAttrs.activation_mode = m\<rparr>) am)
          (map_option (\<lambda>s. \<lparr>SideInputAttrs.side_input_scale = s\<rparr>) ss)
          (map_option (\<lambda>a. \<lparr>leaky_relu_alpha = a\<rparr>) la) graph = Some d
           \<and> GetGpuConvConfig env (trace wld) d = Inr c)"
  shows "searches (trace (invocations n
           (DoConv env knd ro runner op0 op1 bias side outputs scratch uid dims w b fgc rsc
              am ss la extra graph) wld))
         = searches (trace wld) + n"
  using assms by (rule invocations_searches)

lemma example_alg: "ConvBackendConfig.algorithm (example_backend_config a ws) = a"
  by (simp add: example_backend_config_def)

lemma example_cuda: "GOOGLE_CUDA (example_env c) = c"
  by (simp add: example_env_def)

lemma example_buildable:
  "\<exists>d c. make_descriptor kForward example_operand0 example_operand1 [example_output]
        example_scratch example_dims example_window
        (pin_algorithm (example_backend_config (- 1) (- 1))) 1 1
        (map_option (\<lambda>m. \<lparr>FusedConvAttrs.activation_mode = m\<rparr>) None)
        (map_option (\<lambda>s. \<lparr>SideInputAttrs.side_input_scale = s\<rparr>) None)
        (map_option (\<lambda>a. \<lparr>leaky_relu_alpha = a\<rparr>) None) None = Some d
      \<and> GetGpuConvConfig (example_env True) (trace example_world) d = Inr c"
  using example_make_descriptor [of "- 1"] by (auto simp: example_env_def)

theorem invocations_search_every_time_witness:
  "searches (trace (invocations 3 (example_call True (- 1)) example_world)) = 3"
proof -
  have "searches (trace (invocations 3
           (DoConv (example_env True) kForward example_run_options example_runner
              example_operand0 example_operand1 None None [example_output] example_scratch 42
              example_dims example_window (example_backend_config (- 1) (- 1)) 1 1
              None None None [] None) example_world))
         = searches (trace example_world) + 3"
  proof (rule invocations_search_every_time)
    show "ConvBackendConfig.algorithm (example_backend_config (- 1) (- 1)) = - 1"
      by (simp add: example_alg)
    show "GOOGLE_CUDA (example_env True)"
      by (simp add: example_cuda)
  qed (rule disjI2, rule example_buildable)
  then show ?thesis
    by (simp add: example_call_def [abs_def] example_world_def)
qed

text \<open>
  The claim as stated fails: two invocations of the example call site run the search
  twice.
\<close>

theorem search_once_counterexample:
  "searches (trace (invocations 2 (example_call True (- 1)) example_world)) = 2
   \<and> searches (trace (invocations 2 (example_call True (- 1)) example_world)) \<noteq> 1"
proof -
  have "searches (trace (invocations 2
           (DoConv (example_env True) kForward example_run_options example_runner
              example_operand0 example_operand1 None None [example_output] example_scratch 42
              example_dims example_window (example_backend_config (- 1) (- 1)) 1 1
              None None None [] None) example_world))
         = searches (trace example_world) + 2"
  proof (rule invocations_searches)
    show "ConvBackendConfig.algorithm (example_backend_config (- 1) (- 1)) = - 1"
      by (simp add: example_alg)
    show "GOOGLE_CUDA (example_env True)"
      by (simp add: example_cuda)
  qed (rule disjI2, rule example_buildable)
  then show ?thesis
    by (simp add: example_call_def [abs_def] example_world_def)
qed

lemma DoConv_run_phase:
  assumes "GetOrCreate runner (conv_builder env (make_descriptor knd op0 op1 outputs scratch
          dims w (pin_algorithm b) fgc rsc
          (map_option (\<lambda>m. \<lparr>FusedConvAttrs.activation_mode = m\<rparr>) am)
          (map_option (\<lambda>s. \<lparr>SideInputAttrs.side_input_scale = s\<rparr>) ss)
          (map_option (\<lambda>a. \<lparr>leaky_relu_alpha = a\<rparr>) la) graph)) wld = (OkStatus, wld1)"
    and "required_scratch env b runner (operand_buffers env op0 op1 bias side extra)
          (map (GetDeviceAddress env) outputs) (GetDeviceAddressFlat env scratch) wld1
        = (Inr n, wld2)"
  shows "DoConv env knd ro runner op0 op1 bias side outputs scratch uid dims w b fgc rsc
             am ss la extra graph wld
    = run_conv env ro runner (operand_buffers env op0 op1 bias side extra)
          (map (GetDeviceAddress env) outputs) (GetDeviceAddressFlat env scratch) n wld2"
  using assms by (simp add: DoConv_def Let_def)

lemma required_scratch_explicit:
  assumes "required_scratch env b conv bs rs sb wld1 = (Inr n, wld2)"
    and "ConvBackendConfig.algorithm b \<noteq> - 1"
  shows "n = bytes sb"
  using assms by (simp add: required_scratch_def runtime_autotuning_def)

text \<open>
  Claim C5. Take an invocation that has its plan and whose required scratch size is
  \<open>S\<close> (the size of the supplied buffer when the algorithm is explicit, the scratch
  bytes that the search reports when it is the sentinel), and let \<open>s0\<close> be the size of
  the supplied scratch buffer. If \<open>s0 < S\<close>, the next external call is the allocation of
  exactly \<open>S\<close> bytes for the device ordinal of the run options, and when it succeeds the
  primitive runs on the allocated buffer of size \<open>S\<close>, not on the supplied one (when it
  fails, that error is returned and nothing runs). Otherwise there is no allocation and
  the primitive runs on the supplied buffer. Sizes are compared as unsigned 64-bit
  values, as line 447 does.
\<close>

theorem DoConv_scratch_allocation:
  assumes "DoConv env knd ro runner op0 op1 bias side outputs scratch uid dims w b fgc rsc
             am ss la extra graph wld = (st, wld')"
    and "GetOrCreate runner (conv_builder env (make_descriptor knd op0 op1 outputs scratch
          dims w (pin_algorithm b) fgc rsc
          (map_option (\<lambda>m. \<lparr>FusedConvAttrs.activation_mode = m\<rparr>) am)
          (map_option (\<lambda>s. \<lparr>SideInputAttrs.side_input_scale = s\<rparr>) ss)
          (map_option (\<lambda>a. \<lparr>leaky_relu_alpha = a\<rparr>) la) graph)) wld = (OkStatus, wld1)"
    and "required_scratch env b runner (operand_buffers env op0 op1 bias side extra)
          (map (GetDeviceAddress env) outputs) (GetDeviceAddressFlat env scratch) wld1
        = (Inr S, wld2)"
  shows "(ConvBackendConfig.algorithm b \<noteq> - 1 \<longrightarrow> S = bytes (GetDeviceAddressFlat env scratch))
    \<and> (bytes (GetDeviceAddressFlat env scratch) < S \<longrightarrow>
         (\<exists>rest. trace wld' = trace wld2 @ EvAllocate (device_ordinal ro) S # rest
            \<and> (case Allocate env (trace wld2) (device_ordinal ro) S of
                  Inl e \<Rightarrow> rest = [] \<and> st = Inl e
                | Inr ptr \<Rightarrow>
                    (\<exists>cfg. rest = [EvRunGpuConv cfg
                       (operand_buffers env op0 op1 bias side extra)
                       (map (GetDeviceAddress env) outputs)
                       \<lparr>opaque = ptr, bytes = S\<rparr>]))))
    \<and> (\<not> bytes (GetDeviceAddressFlat env scratch) < S \<longrightarrow>
         (\<exists>cfg. trace wld' = trace wld2 @ [EvRunGpuConv cfg
                       (operand_buffers env op0 op1 bias side extra)
                       (map (GetDeviceAddress env) outputs)
                       (GetDeviceAddressFlat env scratch)]))"
proof -
  have plan: "deref runner wld2 \<noteq> None"
    using GetOrCreate_deref [OF assms(2)] required_scratch_deref [OF assms(3)] by simp
  have run: "run_conv env ro runner (operand_buffers env op0 op1 bias side extra)
          (map (GetDeviceAddress env) outputs) (GetDeviceAddressFlat env scratch) S wld2
        = (st, wld')"
    using DoConv_run_phase [OF assms(2,3)] assms(1) by simp
  have explicit: "ConvBackendConfig.algorithm b \<noteq> - 1 \<longrightarrow>
      S = bytes (GetDeviceAddressFlat env scratch)"
    using required_scratch_explicit [OF assms(3)] by simp
  from run show ?thesis
  proof (cases rule: run_conv_cases)
    case dangling
    with plan show ?thesis by simp
  next
    case (fits r)
    with explicit show ?thesis by simp
  next
    case (allocation_failed r e)
    with explicit show ?thesis by simp
  next
    case (allocated r ptr)
    with explicit show ?thesis by simp
  qed
qed

theorem DoConv_scratch_allocation_witness:
  "EvAllocate 0 128 \<in> set (trace (snd (example_call True (- 1) example_world)))
   \<and> map is_run (trace (snd (example_call True (- 1) example_world)))
       = [False, False, False, True]
   \<and> filter is_allocate (trace (snd (example_call True 3 example_world))) = []
   \<and> map is_run (trace (snd (example_call True 3 example_world))) = [False, True]"
proof -
  let ?d = "\<lambda>alg. make_descriptor kForward example_operand0 example_operand1 [example_output]
       example_scratch example_dims example_window
       (pin_algorithm (example_backend_config alg (- 1))) 1 1
       (map_option (\<lambda>m. \<lparr>FusedConvAttrs.activation_mode = m\<rparr>) None)
       (map_option (\<lambda>s. \<lparr>SideInputAttrs.side_input_scale = s\<rparr>) None)
       (map_option (\<lambda>a. \<lparr>leaky_relu_alpha = a\<rparr>) None) None"
  let ?bs = "operand_buffers (example_env True) example_operand0 example_operand1 None None []"
  let ?rs = "map (GetDeviceAddress (example_env True)) [example_output]"
  let ?sb = "GetDeviceAddressFlat (example_env True) example_scratch"
  let ?w1 = "\<lambda>alg. snd (GetOrCreate example_runner (conv_builder (example_env True) (?d alg))
                example_world)"
  let ?w2 = "\<lambda>alg. snd (required_scratch (example_env True) (example_backend_config alg (- 1))
                example_runner ?bs ?rs ?sb (?w1 alg))"
  have d: "?d alg \<noteq> None" for alg
    using example_GetConvDescriptor [of 0 "- 1"] example_GetConvDescriptor [of alg "- 1"]
    by (auto simp: make_descriptor_def pin_algorithm_def example_backend_config_def
        span_at_def example_attrs_def)
  have call: "DoConv (example_env True) kForward example_run_options example_runner
       example_operand0 example_operand1 None None [example_output] example_scratch 42
       example_dims example_window (example_backend_config alg (- 1)) 1 1
       None None None [] None example_world
     = (fst (example_call True alg example_world), snd (example_call True alg example_world))"
    for alg
    by (simp add: example_call_def)
  have plan: "GetOrCreate example_runner (conv_builder (example_env True) (?d alg)) example_world
     = (OkStatus, ?w1 alg)" for alg
    using d [of alg]
    by (auto simp: GetOrCreate_def conv_builder_def deref_def example_world_def example_env_def)
  have size3: "required_scratch (example_env True) (example_backend_config 3 (- 1))
                example_runner ?bs ?rs ?sb (?w1 3) = (Inr 64, ?w2 3)"
    by (simp add: required_scratch_def runtime_autotuning_def example_backend_config_def
        example_env_def example_scratch_def)
  have size_auto: "required_scratch (example_env True) (example_backend_config (- 1) (- 1))
                example_runner ?bs ?rs ?sb (?w1 (- 1)) = (Inr 128, ?w2 (- 1))"
    using d [of "- 1"]
    by (auto simp: required_scratch_def runtime_autotuning_def example_backend_config_def
        example_env_def autotune_def GetOrCreate_def conv_builder_def deref_def store_def
        log_event_def example_world_def example_runner_def Let_def)
  have tr3: "trace (?w2 3) = [EvGetGpuConvConfig (the (?d 3))]"
    using d [of 3]
    by (auto simp: GetOrCreate_def conv_builder_def deref_def example_world_def
        example_env_def required_scratch_def runtime_autotuning_def example_backend_config_def)
  have tr_auto: "map is_run (trace (?w2 (- 1))) = [False, False]"
    using d [of "- 1"]
    by (auto simp: required_scratch_def runtime_autotuning_def example_backend_config_def
        example_env_def autotune_def GetOrCreate_def conv_builder_def deref_def store_def
        log_event_def example_world_def example_runner_def Let_def)
  have s0: "bytes ?sb = 64" and ptr: "Allocate (example_env True) tr ordinal n = Inr 20480"
    for tr ordinal n
    by (simp_all add: example_env_def example_scratch_def)
  have ordinal: "device_ordinal example_run_options = 0"
    by (simp add: example_run_options_def)
  from DoConv_scratch_allocation [OF call plan size3] tr3
  have explicit: "filter is_allocate (trace (snd (example_call True 3 example_world))) = []
    \<and> map is_run (trace (snd (example_call True 3 example_world))) = [False, True]"
    by (auto simp: s0)
  from DoConv_scratch_allocation [OF call plan size_auto] tr_auto
  have tuned: "EvAllocate 0 128 \<in> set (trace (snd (example_call True (- 1) example_world)))
    \<and> map is_run (trace (snd (example_call True (- 1) example_world)))
       = [False, False, False, True]"
    by (auto simp: s0 ptr ordinal)
  from explicit tuned show ?thesis
    by simp
qed

section \<open>Properties of \<open>ConvGraphImpl\<close>\<close>

lemma unat_of_nat64: "j < 2 ^ 64 \<Longrightarrow> unat (word_of_nat j :: int64) = j"
  by (simp add: unat_of_nat)

lemma scast_of_nat_small:
  assumes "j < 2147483648"
  shows "(scast (word_of_nat j :: int32) :: int64) = word_of_nat j"
proof -
  have u: "uint (word_of_nat j :: int32) = int j"
    using assms by (simp add: uint_nat unat_of_nat)
  have "sint (word_of_nat j :: int32) = signed_take_bit 31 (uint (word_of_nat j :: int32))"
    by (simp add: sint_uint)
  also have "\<dots> = int j"
    unfolding u using assms by (intro signed_take_bit_int_eq_self) simp_all
  finally have "sint (word_of_nat j :: int32) = int j" .
  then have "(scast (word_of_nat j :: int32) :: int64) = word_of_int (int j)"
    by (simp only: scast_eq)
  then show ?thesis
    by simp
qed

lemma of_nat_not_max:
  assumes "j < 2147483647"
  shows "(word_of_nat j :: int32) \<noteq> 2147483647"
proof
  assume "(word_of_nat j :: int32) = 2147483647"
  then have "unat (word_of_nat j :: int32) = unat (2147483647 :: int32)"
    by simp
  with assms show False
    by (simp add: unat_of_nat)
qed

lemma scast_count:
  assumes "0 \<le> sint (a :: int32)"
  shows "(scast a :: int64) = word_of_nat (nat (sint a))"
proof -
  have "(scast a :: int64) = word_of_int (sint a)"
    by (simp only: scast_eq)
  also have "\<dots> = word_of_int (int (nat (sint a)))"
    using assms by simp
  also have "\<dots> = word_of_nat (nat (sint a))"
    by (simp only: of_int_of_nat_eq)
  finally show ?thesis .
qed

lemma count_bound:
  fixes a :: int32
  shows "nat (sint a) < 2147483648"
  using sint_lt [of a] by simp

lemma args_loop_char:
  assumes "length args < 2 ^ 31" and "j \<le> length args"
  shows "args_loop args bound msg (word_of_nat j) acc =
    (if \<forall>i. j \<le> i \<and> i < unat bound \<longrightarrow> i < length args \<and> as_strided (args ! i) \<noteq> None
     then Inr (acc @ map (strided_at args) [j..<unat bound])
     else Inl (InternalError msg))"
  using assms(2)
proof (induction "length args - j" arbitrary: j acc)
  case 0
  then have j: "j = length args"
    by simp
  have small: "j < 2147483648" "j < 2 ^ 64"
    using assms(1) j by simp_all
  have idx: "unat (scast (word_of_nat j :: int32) :: int64) = j"
    using small by (simp add: scast_of_nat_small unat_of_nat64)
  have cmp: "((scast (word_of_nat j :: int32) :: int64) < bound) = (j < unat bound)"
    by (simp add: word_less_nat_alt idx)
  show ?case
  proof (cases "j < unat bound")
    case True
    then have "\<not> (\<forall>i. j \<le> i \<and> i < unat bound \<longrightarrow>
        i < length args \<and> as_strided (args ! i) \<noteq> None)"
      using j by auto
    moreover have get: "get_StridedMemrefView args (scast (word_of_nat j :: int32)) = None"
      by (simp only: get_StridedMemrefView_def idx) (simp add: span_at_def j)
    have "args_loop args bound msg (word_of_nat j) acc = Inl (InternalError msg)"
      using True by (subst args_loop.simps) (simp add: cmp get)
    ultimately show ?thesis
      by simp
  next
    case False
    then show ?thesis
      by (subst args_loop.simps) (simp add: cmp)
  qed
next
  case (Suc k)
  then have j: "j < length args"
    by simp
  have small: "j < 2147483647" "j < 2147483648" "j < 2 ^ 64"
    using assms(1) j by simp_all
  have idx: "unat (scast (word_of_nat j :: int32) :: int64) = j"
    using small by (simp add: scast_of_nat_small unat_of_nat64)
  have cmp: "((scast (word_of_nat j :: int32) :: int64) < bound) = (j < unat bound)"
    by (simp add: word_less_nat_alt idx)
  have get: "get_StridedMemrefView args (scast (word_of_nat j :: int32)) = as_strided (args ! j)"
    by (simp only: get_StridedMemrefView_def idx) (simp add: span_at_def j)
  have next_i: "(word_of_nat j :: int32) + 1 = word_of_nat (Suc j)"
    by simp
  show ?case
  proof (cases "j < unat bound")
    case False
    then show ?thesis
      by (subst args_loop.simps) (simp add: cmp)
  next
    case True
    show ?thesis
    proof (cases "as_strided (args ! j)")
      case None
      then have "\<not> (\<forall>i. j \<le> i \<and> i < unat bound \<longrightarrow>
          i < length args \<and> as_strided (args ! i) \<noteq> None)"
        using True by auto
      moreover have "args_loop args bound msg (word_of_nat j) acc = Inl (InternalError msg)"
        using True None by (subst args_loop.simps) (simp add: cmp get)
      ultimately show ?thesis
        by simp
    next
      case (Some v)
      have step: "args_loop args bound msg (word_of_nat j) acc
          = args_loop args bound msg (word_of_nat (Suc j)) (acc @ [v])"
        using True Some of_nat_not_max [OF small(1)]
        by (subst args_loop.simps) (simp add: cmp get next_i del: of_nat_Suc)
      have ih: "args_loop args bound msg (word_of_nat (Suc j)) (acc @ [v]) =
        (if \<forall>i. Suc j \<le> i \<and> i < unat bound \<longrightarrow>
              i < length args \<and> as_strided (args ! i) \<noteq> None
         then Inr ((acc @ [v]) @ map (strided_at args) [Suc j..<unat bound])
         else Inl (InternalError msg))"
        using Suc.hyps(2) j by (intro Suc.hyps(1)) simp_all
      have all: "(\<forall>i. j \<le> i \<and> i < unat bound \<longrightarrow>
              i < length args \<and> as_strided (args ! i) \<noteq> None)
          = (\<forall>i. Suc j \<le> i \<and> i < unat bound \<longrightarrow>
              i < length args \<and> as_strided (args ! i) \<noteq> None)"
        using j Some by (metis Suc_leI le_neq_implies_less option.distinct(1) Suc_leD)
      have lst: "[j..<unat bound] = j # [Suc j..<unat bound]"
        using True by (simp add: upt_conv_Cons)
      have v: "strided_at args j = v"
        using Some by (simp add: strided_at_def)
      show ?thesis
        unfolding step ih all lst by (simp add: v)
    qed
  qed
qed


lemma first_output_in_range:
  fixes a :: int32
  assumes "0 \<le> sint a" and "nat (sint a) + 2 \<le> length args"
  shows "args_size args - scast a - 2 = word_of_nat (length args - nat (sint a) - 2)"
proof -
  have "length args = (length args - nat (sint a) - 2) + nat (sint a) + 2"
    using assms(2) by simp
  then have "(word_of_nat (length args) :: int64)
      = word_of_nat (length args - nat (sint a) - 2) + word_of_nat (nat (sint a)) + 2"
    by (metis of_nat_add of_nat_numeral)
  then show ?thesis
    by (simp add: args_size_def scast_count [OF assms(1)])
qed

lemma first_output_shortfall:
  fixes a :: int32
  assumes "0 \<le> sint a" and "length args < nat (sint a) + 2" and "length args < 2 ^ 31"
  shows "length args < unat (args_size args - scast a - 2)"
proof -
  define x :: int64 where "x = word_of_nat (length args)"
  define y :: int64 where "y = word_of_nat (nat (sint a) + 2)"
  have a: "nat (sint a) < 2147483648"
    by (rule count_bound)
  have "args_size args - scast a - 2 = x - y"
    by (simp add: args_size_def scast_count [OF assms(1)] x_def y_def)
  moreover have "unat x = length args"
    unfolding x_def using assms(3) by (intro unat_of_nat64) simp
  moreover have "unat y = nat (sint a) + 2"
    unfolding y_def using a by (intro unat_of_nat64) simp
  ultimately have "unat (args_size args - scast a - 2)
      = length args + 2 ^ 64 - (nat (sint a) + 2)"
    using assms(2) by (simp add: unat_sub_if')
  with a show ?thesis
    by simp
qed

lemma last_index:
  assumes "0 < length args" and "length args < 2 ^ 31"
  shows "args_size args - 1 = word_of_nat (length args - 1)"
proof -
  have "length args = (length args - 1) + 1"
    using assms(1) by simp
  then have "(word_of_nat (length args) :: int64) = word_of_nat (length args - 1) + 1"
    by (metis of_nat_add of_nat_1)
  then show ?thesis
    by (simp add: args_size_def)
qed

lemma ucast_of_nat_small:
  assumes "k < 2147483648"
  shows "(ucast (word_of_nat k :: int64) :: int32) = word_of_nat k"
proof -
  have "uint (word_of_nat k :: int64) = int k"
    using assms by (simp add: uint_nat unat_of_nat)
  then have "(ucast (word_of_nat k :: int64) :: int32) = word_of_int (int k)"
    by (simp only: ucast_eq)
  then show ?thesis
    by simp
qed

text \<open>
  Claim C4. For a graph call with \<open>N\<close> arguments (fewer than \<open>2^31\<close>, the range of the
  loop counters) and a declared count \<open>A \<ge> 0\<close> of auxiliary outputs: when \<open>N \<ge> A + 2\<close>
  and every entry resolves, the first \<open>N - A - 2\<close> entries are the extra operands, the
  next \<open>A + 1\<close> the outputs in order, the last one the scratch buffer, and the call is
  \<open>DoConv\<close> on them. Otherwise the call returns the internal error of the first group
  that fails (operand, output, scratch) and leaves the state as it was: nothing is
  built, searched, allocated or run. A list shorter than \<open>A + 2\<close> fails in the operand
  group, because \<open>N - A - 2\<close> wraps around in \<open>size_t\<close>.
\<close>

theorem ConvGraphImpl_binding:
  assumes "0 \<le> sint n_aux_outputs" and "length args < 2 ^ 31"
  shows "ConvGraphImpl env knd ro runner op0 op1 args uid dims w b fgc rsc n_aux_outputs graph wld
    = (let N = length args; A = nat (sint n_aux_outputs) in
       if N < A + 2 \<or> (\<exists>i < N - A - 2. as_strided (args ! i) = None)
       then (Inl (InternalError ''Failed to get operand buffer for convolution graph''), wld)
       else if \<exists>i. N - A - 2 \<le> i \<and> i < N - 1 \<and> as_strided (args ! i) = None
       then (Inl (InternalError ''Failed to get output buffer for convolution graph''), wld)
       else if as_flat (args ! (N - 1)) = None
       then (Inl (InternalError ''Failed to get scratch buffer for convolution graph''), wld)
       else DoConv env knd ro runner op0 op1 None None
              (map (strided_at args) [N - A - 2..<N - 1])
              (the (as_flat (args ! (N - 1)))) uid dims w b fgc rsc None None None
              (map (strided_at args) [0..<N - A - 2]) (Some graph) wld)"
proof -
  let ?N = "length args" and ?A = "nat (sint n_aux_outputs)"
  let ?first = "args_size args - scast n_aux_outputs - 2"
  let ?op = "''Failed to get operand buffer for convolution graph''"
  let ?out = "''Failed to get output buffer for convolution graph''"
  have loop1: "args_loop args ?first ?op 0 [] =
    (if \<forall>i. i < unat ?first \<longrightarrow> i < ?N \<and> as_strided (args ! i) \<noteq> None
     then Inr (map (strided_at args) [0..<unat ?first])
     else Inl (InternalError ?op))"
    using args_loop_char [OF assms(2), of 0 ?first ?op "[]"] by simp
  show ?thesis
  proof (cases "?N < ?A + 2")
    case True
    have "?N < unat ?first"
      using assms True by (intro first_output_shortfall) simp_all
    then have "\<not> (\<forall>i. i < unat ?first \<longrightarrow> i < ?N \<and> as_strided (args ! i) \<noteq> None)"
      by auto
    with loop1 have "args_loop args ?first ?op 0 [] = Inl (InternalError ?op)"
      by simp
    with True show ?thesis
      by (simp add: ConvGraphImpl_def Let_def)
  next
    case False
    then have range: "?A + 2 \<le> ?N"
      by simp
    let ?k = "?N - ?A - 2"
    have first: "?first = word_of_nat ?k"
      using assms(1) range by (rule first_output_in_range)
    have k: "?k \<le> ?N" "?k < 2147483648" "?k < 2 ^ 64"
      using assms(2) by simp_all
    have ufirst: "unat ?first = ?k"
      unfolding first using k by (simp add: unat_of_nat)
    have start: "(ucast ?first :: int32) = word_of_nat ?k"
      unfolding first using k(2) by (rule ucast_of_nat_small)
    have last: "args_size args - 1 = word_of_nat (?N - 1)"
      using range assms(2) by (intro last_index) auto
    have ulast: "unat (args_size args - 1) = ?N - 1"
      unfolding last using assms(2) by (simp add: unat_of_nat)
    have loop2: "args_loop args (args_size args - 1) ?out (ucast ?first) [] =
      (if \<forall>i. ?k \<le> i \<and> i < ?N - 1 \<longrightarrow> i < ?N \<and> as_strided (args ! i) \<noteq> None
       then Inr (map (strided_at args) [?k..<?N - 1])
       else Inl (InternalError ?out))"
      unfolding start
      using args_loop_char [OF assms(2) k(1), of "args_size args - 1" ?out "[]"]
      by (simp add: ulast)
    have "?N - 1 < ?N"
      using range by simp
    then have flat:
      "get_FlatMemrefView args (args_size args - 1) = as_flat (args ! (?N - 1))"
      by (simp add: get_FlatMemrefView_def ulast span_at_def)
    define P1 where "P1 = (\<exists>i < ?k. as_strided (args ! i) = None)"
    define P2 where "P2 = (\<exists>i. ?k \<le> i \<and> i < ?N - 1 \<and> as_strided (args ! i) = None)"
    have all1: "(\<forall>i. i < ?k \<longrightarrow> i < ?N \<and> as_strided (args ! i) \<noteq> None) = (\<not> P1)"
      unfolding P1_def by auto
    have all2: "(\<forall>i. ?k \<le> i \<and> i < ?N - 1 \<longrightarrow> i < ?N \<and> as_strided (args ! i) \<noteq> None)
       = (\<not> P2)"
      unfolding P2_def by auto
    let ?lhs = "ConvGraphImpl env knd ro runner op0 op1 args uid dims w b fgc rsc
          n_aux_outputs graph wld"
    let ?bound = "case as_flat (args ! (?N - 1)) of
                 None \<Rightarrow>
                   (Inl (InternalError ''Failed to get scratch buffer for convolution graph''),
                    wld)
               | Some scratch \<Rightarrow>
                   DoConv env knd ro runner op0 op1 None None
                     (map (strided_at args) [?k..<?N - 1]) scratch uid dims w b fgc rsc
                     None None None (map (strided_at args) [0..<?k]) (Some graph) wld"
    have rhs: "(let N = length args; A = nat (sint n_aux_outputs) in
       if N < A + 2 \<or> (\<exists>i < N - A - 2. as_strided (args ! i) = None)
       then (Inl (InternalError ?op), wld)
       else if \<exists>i. N - A - 2 \<le> i \<and> i < N - 1 \<and> as_strided (args ! i) = None
       then (Inl (InternalError ?out), wld)
       else if as_flat (args ! (N - 1)) = None
       then (Inl (InternalError ''Failed to get scratch buffer for convolution graph''), wld)
       else DoConv env knd ro runner op0 op1 None None
              (map (strided_at args) [N - A - 2..<N - 1])
              (the (as_flat (args ! (N - 1)))) uid dims w b fgc rsc None None None
              (map (strided_at args) [0..<N - A - 2]) (Some graph) wld)
      = (if P1 then (Inl (InternalError ?op), wld)
         else if P2 then (Inl (InternalError ?out), wld)
         else ?bound)"
      unfolding Let_def P1_def [symmetric] P2_def [symmetric] using False
      by (cases "as_flat (args ! (?N - 1))") simp_all
    have "?lhs = (if P1 then (Inl (InternalError ?op), wld)
         else if P2 then (Inl (InternalError ?out), wld)
         else ?bound)"
    proof (cases P1)
      case True
      then have l1: "args_loop args ?first ?op 0 [] = Inl (InternalError ?op)"
        unfolding loop1 ufirst all1 by simp
      show ?thesis
        unfolding ConvGraphImpl_def Let_def l1 using True by simp
    next
      case no1: False
      then have l1: "args_loop args ?first ?op 0 [] = Inr (map (strided_at args) [0..<?k])"
        unfolding loop1 ufirst all1 by simp
      show ?thesis
      proof (cases P2)
        case True
        then have l2: "args_loop args (args_size args - 1) ?out (ucast ?first) []
            = Inl (InternalError ?out)"
          unfolding loop2 all2 by simp
        show ?thesis
          unfolding ConvGraphImpl_def Let_def l1 l2 using no1 True by simp
      next
        case no2: False
        then have l2: "args_loop args (args_size args - 1) ?out (ucast ?first) []
            = Inr (map (strided_at args) [?k..<?N - 1])"
          unfolding loop2 all2 by simp
        show ?thesis
          unfolding ConvGraphImpl_def Let_def l1 l2 flat using no1 no2
          by (simp split: option.split)
      qed
    qed
    with rhs show ?thesis
      by simp
  qed
qed

theorem ConvGraphImpl_binding_witness:
  "ConvGraphImpl (example_env True) kForwardGraph example_run_options example_runner
      example_operand0 example_operand1 example_args 42 example_dims example_window
      (example_backend_config 0 (- 1)) 1 1 2 ''graph'' example_world
    = DoConv (example_env True) kForwardGraph example_run_options example_runner
        example_operand0 example_operand1 None None
        [example_buffer 3, example_buffer 4, example_buffer 5] example_scratch 42
        example_dims example_window (example_backend_config 0 (- 1)) 1 1 None None None
        [example_buffer 0, example_buffer 1, example_buffer 2] (Some ''graph'') example_world
   \<and> ConvGraphImpl (example_env True) kForwardGraph example_run_options example_runner
      example_operand0 example_operand1 (take 3 example_args) 42 example_dims example_window
      (example_backend_config 0 (- 1)) 1 1 2 ''graph'' example_world
    = (Inl (InternalError ''Failed to get operand buffer for convolution graph''),
       example_world)"
proof -
  have count: "0 \<le> sint (2 :: int32)" "nat (sint (2 :: int32)) = 2"
    by simp_all
  have len: "length example_args = 7" "length (take 3 example_args) = 3"
    by (simp_all add: example_args_def)
  have small: "length example_args < 2 ^ 31" "length (take 3 example_args) < 2 ^ 31"
    unfolding len by simp_all
  have "\<forall>a \<in> set example_args. as_strided a \<noteq> None"
    by (simp add: example_args_def memref_arg_def)
  then have strided: "as_strided (example_args ! i) \<noteq> None" if "i < 7" for i
    using that len(1) nth_mem [of i example_args] by auto
  have no1: "\<not> (\<exists>i < 7 - 2 - 2. as_strided (example_args ! i) = None)"
    using strided by auto
  have no2: "\<not> (\<exists>i. 7 - 2 - 2 \<le> i \<and> i < 7 - 1 \<and> as_strided (example_args ! i) = None)"
    using strided by auto
  have flat: "as_flat (example_args ! (7 - 1)) = Some example_scratch"
    by (simp add: example_args_def)
  have extra: "map (strided_at example_args) [0..<7 - 2 - 2]
      = [example_buffer 0, example_buffer 1, example_buffer 2]"
  proof -
    have "[0..<7 - 2 - 2] = [0, 1, 2 :: nat]"
      by code_simp
    then show ?thesis
      by (simp add: strided_at_def example_args_def memref_arg_def)
  qed
  have outs: "map (strided_at example_args) [7 - 2 - 2..<7 - 1]
      = [example_buffer 3, example_buffer 4, example_buffer 5]"
  proof -
    have "[7 - 2 - 2..<7 - 1] = [3, 4, 5 :: nat]"
      by code_simp
    then show ?thesis
      by (simp add: strided_at_def example_args_def memref_arg_def)
  qed
  have full: "ConvGraphImpl (example_env True) kForwardGraph example_run_options example_runner
      example_operand0 example_operand1 example_args 42 example_dims example_window
      (example_backend_config 0 (- 1)) 1 1 2 ''graph'' example_world
    = DoConv (example_env True) kForwardGraph example_run_options example_runner
        example_operand0 example_operand1 None None
        [example_buffer 3, example_buffer 4, example_buffer 5] example_scratch 42
        example_dims example_window (example_backend_config 0 (- 1)) 1 1 None None None
        [example_buffer 0, example_buffer 1, example_buffer 2] (Some ''graph'') example_world"
    unfolding ConvGraphImpl_binding [OF count(1) small(1)] Let_def len count(2)
    using no1 no2 by (simp only: flat extra outs) simp
  have short: "ConvGraphImpl (example_env True) kForwardGraph example_run_options example_runner
      example_operand0 example_operand1 (take 3 example_args) 42 example_dims example_window
      (example_backend_config 0 (- 1)) 1 1 2 ''graph'' example_world
    = (Inl (InternalError ''Failed to get operand buffer for convolution graph''),
       example_world)"
    unfolding ConvGraphImpl_binding [OF count(1) small(2)] Let_def len count(2)
    by simp
  from full short show ?thesis
    by simp
qed

end
